theory Spec2Isabelle
  imports Main "HOL-Library.AList"
begin

section \<open>Values\<close>

text \<open>
  An asset is an open JavaScript object (\<^verbatim>\<open>interface Asset\<close> ends with
  \<^verbatim>\<open>[x: string]: unknown\<close>), read from and written to the store as JSON. Its values
  are JSON values; an object is the list of its entries in insertion order, a field read
  \<^verbatim>\<open>obj.k\<close> is \<open>map_of obj k\<close> (\<open>None\<close> is \<^verbatim>\<open>undefined\<close>) and an assignment
  \<^verbatim>\<open>obj.k = v\<close> is \<open>AList.update k v obj\<close>: an existing key keeps its place, a new key
  goes last. Numbers are the integers (timestamps in milliseconds, sizes in bytes).
\<close>

datatype json =
    JNull
  | JBool bool
  | JNum int
  | JStr string
  | JArr "json list"
  | JObj "(string \<times> json) list"

type_synonym Asset = "(string \<times> json) list"

text \<open>The truth value JavaScript gives a value in \<^verbatim>\<open>!x\<close> and \<^verbatim>\<open>if (x)\<close>.\<close>

fun truthy :: "json \<Rightarrow> bool" where
  "truthy JNull = False"
| "truthy (JBool b) = b"
| "truthy (JNum n) = (n \<noteq> 0)"
| "truthy (JStr s) = (s \<noteq> [])"
| "truthy (JArr xs) = True"
| "truthy (JObj kvs) = True"

text \<open>
  \<^verbatim>\<open>x == "ready"\<close>, the loose equality of line 67. A string is compared by value. Against
  \<^verbatim>\<open>null\<close>, a boolean or a number the comparison is false (the string converts to NaN).
  An array or object is first converted by \<^verbatim>\<open>toString\<close>: an array joins the strings of
  its elements with commas, so only an array of one element can give \<^verbatim>\<open>ready\<close>, and
  that element must itself convert to \<^verbatim>\<open>ready\<close>; a plain object gives
  \<^verbatim>\<open>[object Object]\<close>.
\<close>

fun looseEqReady :: "json \<Rightarrow> bool" where
  "looseEqReady (JStr s) = (s = ''ready'')"
| "looseEqReady (JArr [y]) = looseEqReady y"
| "looseEqReady v = False"

definition statusIsReady :: "Asset \<Rightarrow> bool" where
  "statusIsReady asset =
     (case map_of asset ''status'' of None \<Rightarrow> False | Some v \<Rightarrow> looseEqReady v)"

datatype error =
    MissingFolderConfig
  | InvalidURL
  | MalformedURI
  | FetchRejected
  | InvalidJSON
  | AssetNotFound
  | SaveFailed nat
  | AssetNotFoundFor string

section \<open>Collaborators\<close>

text \<open>
  \<^verbatim>\<open>getVideoConfig()\<close> is outside the file; the configuration object it resolves to is a
  parameter. \<open>folder\<close> and \<open>remoteSourceAssetPath\<close> may be \<^verbatim>\<open>undefined\<close>.
\<close>

record VideoConfig =
  apiBaseUrl :: string
  provider :: string
  folder :: "string option"
  remoteSourceAssetPath :: "(string \<Rightarrow> string) option"

text \<open>
  A request the module sends with \<^verbatim>\<open>fetch\<close>: the read of line 59, and the write of
  line 107, whose body carries the key and the record.
\<close>

datatype request =
    GET string
  | POST string string Asset

text \<open>
  What \<^verbatim>\<open>fetch\<close> gives back: the promise rejects, or resolves to a response with its
  \<^verbatim>\<open>ok\<close> flag, its status code and, when the body parses as JSON, the record in it
  (\<open>None\<close> when \<^verbatim>\<open>json()\<close> throws). The store keeps records: a body that parses is a JSON
  object, as the type \<^verbatim>\<open>Asset\<close> of the value \<^verbatim>\<open>getAsset\<close> resolves to says.
\<close>

datatype response =
    Rejected
  | Response bool nat "Asset option"

text \<open>
  The helpers of \<^verbatim>\<open>utils/utils.js\<close> that examine strings, the Node library and the
  outside world are parameters too. \<open>parseURL\<close> is \<^verbatim>\<open>new URL(url)\<close>, giving hostname and
  pathname, and \<open>decodeURIComponent\<close> is the function of that name; both throw on bad input
  (\<open>None\<close>). \<open>stat\<close> gives the size of a file, or throws (\<open>None\<close>). \<open>dateNow n\<close> is what the
  \<open>n\<close>-th call of \<^verbatim>\<open>Date.now()\<close> returns. \<open>respond\<close> is the remote store: its answer to a
  request may depend on every request sent before.
\<close>

record Platform =
  isRemote :: "string \<Rightarrow> bool"
  toSafePath :: "string \<Rightarrow> string"
  camelCase :: "json \<Rightarrow> string"
  parseURL :: "string \<Rightarrow> (string \<times> string) option"
  decodeURIComponent :: "string \<Rightarrow> string option"
  pathJoin :: "string \<Rightarrow> string \<Rightarrow> string"
  pathRelative :: "string \<Rightarrow> string \<Rightarrow> string"
  cwd :: string
  stat :: "string \<Rightarrow> int option"
  dateNow :: "nat \<Rightarrow> int"
  respond :: "request list \<Rightarrow> request \<Rightarrow> response"

text \<open>
  The state the module reads and changes: the module variable \<^verbatim>\<open>assetCache\<close>, and the
  traces of its effects on the outside (requests sent, files examined, clock readings).
\<close>

record World =
  assetCache :: "string \<rightharpoonup> Asset"
  netLog :: "request list"
  statLog :: "string list"
  clockReads :: nat

definition fetch :: "Platform \<Rightarrow> request \<Rightarrow> World \<Rightarrow> response \<times> World" where
  "fetch P r w = (respond P (netLog w) r, w\<lparr>netLog := netLog w @ [r]\<rparr>)"

definition readClock :: "Platform \<Rightarrow> World \<Rightarrow> int \<times> World" where
  "readClock P w = (dateNow P (clockReads w), w\<lparr>clockReads := Suc (clockReads w)\<rparr>)"

section \<open>The path resolver\<close>

definition defaultRemoteSourceAssetPath :: "Platform \<Rightarrow> string \<Rightarrow> error + string" where
  "defaultRemoteSourceAssetPath P url =
     (case parseURL P url of
        None \<Rightarrow> Inl InvalidURL
      | Some (hostname, pathname) \<Rightarrow>
          (case decodeURIComponent P (hostname @ pathname) of
             None \<Rightarrow> Inl MalformedURI
           | Some decoded \<Rightarrow> Inr (toSafePath P decoded)))"

text \<open>
  \<^verbatim>\<open>remoteSourceAssetPath(filePath)\<close> of line 94: the strategy of the configuration, or the
  default one when the configuration has none (line 88).
\<close>

definition remoteFragment :: "Platform \<Rightarrow> VideoConfig \<Rightarrow> string \<Rightarrow> error + string" where
  "remoteFragment P cfg url =
     (case remoteSourceAssetPath cfg of
        None \<Rightarrow> defaultRemoteSourceAssetPath P url
      | Some custom \<Rightarrow> Inr (custom url))"

text \<open>
  \<^verbatim>\<open>!folder\<close> holds of \<^verbatim>\<open>undefined\<close> and of the empty string: either way the folder
  configuration is missing, as the message of line 91 says.
\<close>

definition getAssetPath :: "Platform \<Rightarrow> VideoConfig \<Rightarrow> string \<Rightarrow> error + string" where
  "getAssetPath P cfg filePath =
     (if \<not> isRemote P filePath then Inr filePath
      else
        (case folder cfg of
           None \<Rightarrow> Inl MissingFolderConfig
         | Some dir \<Rightarrow>
             if dir = [] then Inl MissingFolderConfig
             else
               (case remoteFragment P cfg filePath of
                  Inl e \<Rightarrow> Inl e
                | Inr fragment \<Rightarrow> Inr (pathJoin P dir fragment))))"

definition getAssetConfigPath :: "Platform \<Rightarrow> VideoConfig \<Rightarrow> string \<Rightarrow> error + string" where
  "getAssetConfigPath P cfg filePath =
     (case getAssetPath P cfg filePath of
        Inl e \<Rightarrow> Inl e
      | Inr p \<Rightarrow> Inr (p @ ''.json''))"

section \<open>The store client and the cache\<close>

text \<open>
  \<^verbatim>\<open>assetPath in assetCache\<close> is a lookup of the key among the entries: every key ends in
  \<^verbatim>\<open>.json\<close>, which no inherited property of an object does. The \<^verbatim>\<open>console.log\<close> lines
  are left out.
\<close>

definition loadAsset :: "Platform \<Rightarrow> string \<Rightarrow> string \<Rightarrow> World \<Rightarrow> (error + Asset) \<times> World" where
  "loadAsset P base assetPath w =
     (case assetCache w assetPath of
        Some cached \<Rightarrow> (Inr cached, w)
      | None \<Rightarrow>
          (case fetch P (GET (base @ ''/'' @ assetPath)) w of
             (Rejected, w1) \<Rightarrow> (Inl FetchRejected, w1)
           | (Response ok code body, w1) \<Rightarrow>
               if \<not> ok then (Inl AssetNotFound, w1)
               else
                 (case body of
                    None \<Rightarrow> (Inl InvalidJSON, w1)
                  | Some asset \<Rightarrow>
                      if statusIsReady asset
                      then (Inr asset, w1\<lparr>assetCache := (assetCache w1)(assetPath \<mapsto> asset)\<rparr>)
                      else (Inr asset, w1))))"

definition getAsset :: "Platform \<Rightarrow> VideoConfig \<Rightarrow> string \<Rightarrow> World \<Rightarrow> (error + Asset) \<times> World" where
  "getAsset P cfg filePath w =
     (case getAssetConfigPath P cfg filePath of
        Inl e \<Rightarrow> (Inl e, w)
      | Inr assetConfigPath \<Rightarrow> loadAsset P (apiBaseUrl cfg) assetConfigPath w)"

definition saveAsset :: "Platform \<Rightarrow> string \<Rightarrow> string \<Rightarrow> Asset \<Rightarrow> World \<Rightarrow> (error + unit) \<times> World" where
  "saveAsset P base assetPath asset w =
     (case fetch P (POST base assetPath asset) w of
        (Rejected, w1) \<Rightarrow> (Inl FetchRejected, w1)
      | (Response ok code body, w1) \<Rightarrow>
          if \<not> ok then (Inl (SaveFailed code), w1) else (Inr (), w1))"

section \<open>Creating a record\<close>

text \<open>
  The object literal of lines 137 to 145 assigns its members in the order written; the
  spread \<^verbatim>\<open>...assetDetails\<close> assigns the entries of the overrides in their order, and
  nothing when the argument was left out.
\<close>

definition spread :: "Asset option \<Rightarrow> Asset \<Rightarrow> Asset" where
  "spread src obj =
     (case src of
        None \<Rightarrow> obj
      | Some entries \<Rightarrow> foldl (\<lambda>acc (k, v). AList.update k v acc) obj entries)"

definition newRecord :: "string \<Rightarrow> string \<Rightarrow> Asset option \<Rightarrow> int \<Rightarrow> int \<Rightarrow> Asset" where
  "newRecord originalFilePath prov assetDetails created updated =
     AList.update ''updatedAt'' (JNum updated)
       (AList.update ''createdAt'' (JNum created)
          (AList.update ''providerMetadata'' (JObj [])
             (AList.update ''provider'' (JStr prov)
                (AList.update ''originalFilePath'' (JStr originalFilePath)
                   (spread assetDetails [(''status'', JStr ''pending'')])))))"

text \<open>
  Lines 132 to 153: the record \<^verbatim>\<open>newAssetDetails\<close> as it stands before the save. Only a
  local file is examined with \<^verbatim>\<open>stat\<close>, and the \<^verbatim>\<open>catch\<close> of line 150 leaves the record
  as it was when that throws.
\<close>

definition newAssetDetails ::
  "Platform \<Rightarrow> VideoConfig \<Rightarrow> string \<Rightarrow> Asset option \<Rightarrow> World \<Rightarrow> Asset \<times> World" where
  "newAssetDetails P cfg filePath assetDetails w =
     (let originalFilePath =
            (if \<not> isRemote P filePath then pathRelative P (cwd P) filePath else filePath);
          (created, w1) = readClock P w;
          (updated, w2) = readClock P w1;
          fresh = newRecord originalFilePath (provider cfg) assetDetails created updated
      in if \<not> isRemote P filePath
         then
           (case stat P filePath of
              Some bytes \<Rightarrow> AList.update ''size'' (JNum bytes) fresh
            | None \<Rightarrow> fresh,
            w2\<lparr>statLog := statLog w2 @ [filePath]\<rparr>)
         else (fresh, w2))"

definition createAsset ::
  "Platform \<Rightarrow> VideoConfig \<Rightarrow> string \<Rightarrow> Asset option \<Rightarrow> World \<Rightarrow> (error + Asset) \<times> World" where
  "createAsset P cfg filePath assetDetails w =
     (case getAssetConfigPath P cfg filePath of
        Inl e \<Rightarrow> (Inl e, w)
      | Inr assetConfigPath \<Rightarrow>
          (case newAssetDetails P cfg filePath assetDetails w of
             (asset, w3) \<Rightarrow>
               (case saveAsset P (apiBaseUrl cfg) assetConfigPath asset w3 of
                  (Inl e, w4) \<Rightarrow> (Inl e, w4)
                | (Inr u, w4) \<Rightarrow> (Inr asset, w4))))"

section \<open>Updating a record\<close>

text \<open>
  Modelled from the spec: \<^verbatim>\<open>deepMerge\<close> of \<^verbatim>\<open>utils/utils.js\<close>, which is not among the
  sources. The spec's words: nested mapping fields are merged key by key, the patch wins on
  conflict, recursing into nested mappings; scalar and array fields are replaced wholesale
  by the patch value when present. \<open>mergeObj cur patch\<close> lays one patch over a record,
  entry by entry.
\<close>

fun mergeObj :: "(string \<times> json) list \<Rightarrow> (string \<times> json) list \<Rightarrow> (string \<times> json) list" where
  "mergeObj cur [] = cur"
| "mergeObj cur ((k, JObj q) # rest) =
     mergeObj
       (AList.update k
          (case map_of cur k of
             Some (JObj e) \<Rightarrow> JObj (mergeObj e q)
           | _ \<Rightarrow> JObj q)
          cur)
       rest"
| "mergeObj cur ((k, v) # rest) = mergeObj (AList.update k v cur) rest"

text \<open>
  Modelled from the spec: the value a key of the patch gets in that merge, given what the
  record holds under it.
\<close>

definition mergeValue :: "json option \<Rightarrow> json \<Rightarrow> json" where
  "mergeValue old v =
     (case (old, v) of (Some (JObj e), JObj q) \<Rightarrow> JObj (mergeObj e q) | _ \<Rightarrow> v)"

text \<open>
  Modelled from the spec: the call \<^verbatim>\<open>deepMerge(a, b, c)\<close> of line 172, in the spec's words
  a deep merge of the patch over the current record with \<^verbatim>\<open>updatedAt\<close> forced: each
  argument is laid over the merge of those before it.
\<close>

definition deepMerge :: "Asset list \<Rightarrow> Asset" where
  "deepMerge objects = (case objects of [] \<Rightarrow> [] | first # others \<Rightarrow> foldl mergeObj first others)"

text \<open>
  The registry \<^verbatim>\<open>providers/transformers.js\<close> is a parameter: the list
  \<^verbatim>\<open>Object.entries\<close> gives of it, each key with its \<^verbatim>\<open>transform\<close> function. The loop of
  lines 194 to 198 returns at the first key that matches.
\<close>

type_synonym TransformerRecord = "(string \<times> (Asset \<Rightarrow> Asset)) list"

fun transformLoop :: "Platform \<Rightarrow> json \<Rightarrow> TransformerRecord \<Rightarrow> Asset \<Rightarrow> Asset" where
  "transformLoop P prov [] asset = asset"
| "transformLoop P prov ((key, transformer) # rest) asset =
     (if key = camelCase P prov then transformer asset else transformLoop P prov rest asset)"

definition transformAsset :: "Platform \<Rightarrow> TransformerRecord \<Rightarrow> Asset \<Rightarrow> Asset" where
  "transformAsset P transformers asset =
     (case map_of asset ''provider'' of
        None \<Rightarrow> asset
      | Some prov \<Rightarrow>
          if \<not> truthy prov then asset else transformLoop P prov transformers asset)"

text \<open>Lines 172 to 174: the record before the transform.\<close>

definition mergedAsset :: "Asset \<Rightarrow> Asset \<Rightarrow> int \<Rightarrow> Asset" where
  "mergedAsset currentAsset assetDetails now =
     deepMerge [currentAsset, assetDetails, [(''updatedAt'', JNum now)]]"

text \<open>
  \<^verbatim>\<open>getAsset\<close> resolves to an object, which is truthy, so the guard of line 168 never
  fires; it is kept as the source has it.
\<close>

definition updateAsset ::
  "Platform \<Rightarrow> VideoConfig \<Rightarrow> TransformerRecord \<Rightarrow> string \<Rightarrow> Asset \<Rightarrow> World
     \<Rightarrow> (error + Asset) \<times> World" where
  "updateAsset P cfg transformers filePath assetDetails w =
     (case getAssetConfigPath P cfg filePath of
        Inl e \<Rightarrow> (Inl e, w)
      | Inr assetConfigPath \<Rightarrow>
          (case getAsset P cfg filePath w of
             (Inl e, w1) \<Rightarrow> (Inl e, w1)
           | (Inr currentAsset, w1) \<Rightarrow>
               if \<not> truthy (JObj currentAsset) then (Inl (AssetNotFoundFor filePath), w1)
               else
                 (let (now, w2) = readClock P w1;
                      newAssetDetails =
                        transformAsset P transformers (mergedAsset currentAsset assetDetails now)
                  in (case saveAsset P (apiBaseUrl cfg) assetConfigPath newAssetDetails w2 of
                        (Inl e, w3) \<Rightarrow> (Inl e, w3)
                      | (Inr u, w3) \<Rightarrow> (Inr newAssetDetails, w3)))))"

section \<open>Sequences of operations\<close>

datatype operation =
    Get string
  | Create string "Asset option"
  | Update string Asset

fun perform ::
  "Platform \<Rightarrow> VideoConfig \<Rightarrow> TransformerRecord \<Rightarrow> operation \<Rightarrow> World \<Rightarrow> (error + Asset) \<times> World" where
  "perform P cfg ts (Get filePath) w = getAsset P cfg filePath w"
| "perform P cfg ts (Create filePath assetDetails) w = createAsset P cfg filePath assetDetails w"
| "perform P cfg ts (Update filePath assetDetails) w = updateAsset P cfg ts filePath assetDetails w"

text \<open>A caller runs operations one after another; a failed one leaves the world it reached.\<close>

fun run :: "Platform \<Rightarrow> VideoConfig \<Rightarrow> TransformerRecord \<Rightarrow> operation list \<Rightarrow> World \<Rightarrow> World" where
  "run P cfg ts [] w = w"
| "run P cfg ts (operation # rest) w = run P cfg ts rest (snd (perform P cfg ts operation w))"

definition cacheAllReady :: "World \<Rightarrow> bool" where
  "cacheAllReady w = (\<forall>k a. assetCache w k = Some a \<longrightarrow> statusIsReady a)"

section \<open>A small installation\<close>

text \<open>
  One concrete platform, configuration and store, on which the theorems below are
  instantiated. The store holds a ready record for \<^verbatim>\<open>videos/a.mp4\<close> and a pending one for
  \<^verbatim>\<open>videos/b.mp4\<close>, answers 404 for any other key and accepts every write.
\<close>

definition readyRecord :: Asset where
  "readyRecord =
     [(''status'', JStr ''ready''), (''originalFilePath'', JStr ''videos/a.mp4''),
      (''provider'', JStr ''mux''), (''providerMetadata'', JObj [(''mux'', JObj [(''assetId'', JStr ''x1'')])]),
      (''createdAt'', JNum 1), (''updatedAt'', JNum 2)]"

definition pendingRecord :: Asset where
  "pendingRecord =
     [(''status'', JStr ''pending''), (''originalFilePath'', JStr ''videos/b.mp4''),
      (''provider'', JStr ''mux''), (''providerMetadata'', JObj []),
      (''createdAt'', JNum 3), (''updatedAt'', JNum 3)]"

definition exampleStore :: "request list \<Rightarrow> request \<Rightarrow> response" where
  "exampleStore sent r =
     (case r of
        GET url \<Rightarrow>
          if url = ''https://api.test/videos/a.mp4.json'' then Response True 200 (Some readyRecord)
          else if url = ''https://api.test/videos/b.mp4.json'' then Response True 200 (Some pendingRecord)
          else Response False 404 None
      | POST url key asset \<Rightarrow> Response True 200 None)"

definition examplePlatform :: Platform where
  "examplePlatform =
     \<lparr> isRemote = (\<lambda>s. take 4 s = ''http''),
       toSafePath = (\<lambda>s. s),
       camelCase = (\<lambda>v. case v of JStr s \<Rightarrow> s | _ \<Rightarrow> []),
       parseURL = (\<lambda>u. if u = ''https://cdn.test/c.mp4'' then Some (''cdn.test'', ''/c.mp4'') else None),
       decodeURIComponent = Some,
       pathJoin = (\<lambda>a b. a @ ''/'' @ b),
       pathRelative =
         (\<lambda>from to. if take (Suc (length from)) to = from @ ''/''
                    then drop (Suc (length from)) to else to),
       cwd = ''/app'',
       stat = (\<lambda>f. if f = ''videos/a.mp4'' then Some 1024
                   else if f = ''/app/videos/d.mp4'' then Some 2048 else None),
       dateNow = (\<lambda>n. 1000 + int n),
       respond = exampleStore \<rparr>"

definition exampleConfig :: VideoConfig where
  "exampleConfig =
     \<lparr> apiBaseUrl = ''https://api.test'', provider = ''mux'', folder = Some ''videos'',
       remoteSourceAssetPath = None \<rparr>"

definition emptyWorld :: World where
  "emptyWorld = \<lparr> assetCache = Map.empty, netLog = [], statLog = [], clockReads = 0 \<rparr>"

text \<open>A world whose cache already holds a record for \<^verbatim>\<open>videos/a.mp4\<close>, older than the store's.\<close>

definition staleRecord :: Asset where
  "staleRecord =
     [(''status'', JStr ''ready''), (''originalFilePath'', JStr ''videos/a.mp4''),
      (''provider'', JStr ''mux''), (''providerMetadata'', JObj []),
      (''createdAt'', JNum 1), (''updatedAt'', JNum 1)]"

definition cachedWorld :: World where
  "cachedWorld = emptyWorld\<lparr>assetCache := [''videos/a.mp4.json'' \<mapsto> staleRecord]\<rparr>"

text \<open>A transform that marks the record, registered for the provider \<^verbatim>\<open>mux\<close>.\<close>

definition exampleTransformers :: TransformerRecord where
  "exampleTransformers = [(''mux'', AList.update ''poster'' (JStr ''poster.jpg''))]"

text \<open>A patch for \<^verbatim>\<open>videos/a.mp4\<close>, the record an update with it saves, and a sequence of calls.\<close>

definition examplePatch :: Asset where
  "examplePatch = [(''status'', JStr ''ready''), (''poster'', JStr ''new.jpg'')]"

definition updatedRecord :: Asset where
  "updatedRecord =
     [(''status'', JStr ''ready''), (''originalFilePath'', JStr ''videos/a.mp4''),
      (''provider'', JStr ''mux''), (''providerMetadata'', JObj []),
      (''createdAt'', JNum 1), (''updatedAt'', JNum 1000), (''poster'', JStr ''poster.jpg'')]"

definition updatedWorld :: World where
  "updatedWorld =
     cachedWorld\<lparr>netLog := [POST ''https://api.test'' ''videos/a.mp4.json'' updatedRecord],
       clockReads := 1\<rparr>"

text \<open>Overrides that name every field \<^verbatim>\<open>createAsset\<close> sets itself.\<close>

definition exampleOverrides :: Asset where
  "exampleOverrides =
     [(''status'', JStr ''uploading''), (''originalFilePath'', JStr ''elsewhere.mp4''),
      (''provider'', JStr ''other''), (''providerMetadata'', JObj [(''other'', JObj [])]),
      (''createdAt'', JNum 5), (''updatedAt'', JNum 6), (''size'', JNum 7)]"

text \<open>
  The records that creating \<^verbatim>\<open>/app/videos/d.mp4\<close>, a file of 2048 bytes, and
  \<^verbatim>\<open>videos/missing.mp4\<close>, which does not exist, with these overrides gives.
\<close>

definition createdRecord :: Asset where
  "createdRecord =
     [(''status'', JStr ''uploading''), (''originalFilePath'', JStr ''videos/d.mp4''),
      (''provider'', JStr ''mux''), (''providerMetadata'', JObj []),
      (''createdAt'', JNum 1000), (''updatedAt'', JNum 1001), (''size'', JNum 2048)]"

definition createdWorld :: World where
  "createdWorld =
     emptyWorld\<lparr>netLog := [POST ''https://api.test'' ''/app/videos/d.mp4.json'' createdRecord],
       statLog := [''/app/videos/d.mp4''], clockReads := 2\<rparr>"

definition keptSizeRecord :: Asset where
  "keptSizeRecord =
     [(''status'', JStr ''uploading''), (''originalFilePath'', JStr ''videos/missing.mp4''),
      (''provider'', JStr ''mux''), (''providerMetadata'', JObj []),
      (''createdAt'', JNum 1000), (''updatedAt'', JNum 1001), (''size'', JNum 7)]"

definition bareRecord :: Asset where
  "bareRecord =
     [(''status'', JStr ''pending''), (''originalFilePath'', JStr ''videos/missing.mp4''),
      (''provider'', JStr ''mux''), (''providerMetadata'', JObj []),
      (''createdAt'', JNum 1000), (''updatedAt'', JNum 1001)]"

text \<open>A store that refuses every request.\<close>

definition refusingPlatform :: Platform where
  "refusingPlatform = examplePlatform\<lparr>respond := (\<lambda>sent r. Response False 500 None)\<rparr>"

text \<open>
  A patch that names both timestamps, and the record an update of \<^verbatim>\<open>videos/a.mp4\<close> with it
  saves; a registry whose transform resets \<^verbatim>\<open>createdAt\<close>, and the record an update with an
  empty patch saves under it.
\<close>

definition redatingPatch :: Asset where
  "redatingPatch = [(''createdAt'', JNum 5), (''updatedAt'', JNum 7)]"

definition redatedRecord :: Asset where
  "redatedRecord =
     [(''status'', JStr ''ready''), (''originalFilePath'', JStr ''videos/a.mp4''),
      (''provider'', JStr ''mux''), (''providerMetadata'', JObj []),
      (''createdAt'', JNum 5), (''updatedAt'', JNum 1000), (''poster'', JStr ''poster.jpg'')]"

definition resettingTransformers :: TransformerRecord where
  "resettingTransformers = [(''mux'', AList.update ''createdAt'' (JNum 0))]"

definition resetRecord :: Asset where
  "resetRecord =
     [(''status'', JStr ''ready''), (''originalFilePath'', JStr ''videos/a.mp4''),
      (''provider'', JStr ''mux''), (''providerMetadata'', JObj []),
      (''createdAt'', JNum 0), (''updatedAt'', JNum 1000)]"

text \<open>A cached record with a nested object and an array, a patch for both, and the merge.\<close>

definition nestedRecord :: Asset where
  "nestedRecord =
     [(''status'', JStr ''ready''), (''provider'', JStr ''mux''),
      (''a'', JObj [(''x'', JNum 0), (''y'', JNum 2)]),
      (''sources'', JArr [JStr ''one'', JStr ''two''])]"

definition nestedWorld :: World where
  "nestedWorld = emptyWorld\<lparr>assetCache := [''videos/a.mp4.json'' \<mapsto> nestedRecord]\<rparr>"

definition nestedPatch :: Asset where
  "nestedPatch = [(''a'', JObj [(''x'', JNum 1)]), (''sources'', JArr [JStr ''three''])]"

definition nestedMerged :: Asset where
  "nestedMerged =
     [(''status'', JStr ''ready''), (''provider'', JStr ''mux''),
      (''a'', JObj [(''x'', JNum 1), (''y'', JNum 2)]),
      (''sources'', JArr [JStr ''three'']), (''updatedAt'', JNum 1000)]"

text \<open>
  The registry with a second entry, for a provider no record here has, whose transform
  resets \<^verbatim>\<open>createdAt\<close>.
\<close>

definition mixedTransformers :: TransformerRecord where
  "mixedTransformers = exampleTransformers @ [(''other'', AList.update ''createdAt'' (JNum 0))]"

text \<open>
  A network on which every \<^verbatim>\<open>fetch\<close> rejects, a store whose answers do not parse as JSON,
  and a platform on which no string decodes.
\<close>

definition rejectingPlatform :: Platform where
  "rejectingPlatform = examplePlatform\<lparr>respond := (\<lambda>sent r. Rejected)\<rparr>"

definition garbledPlatform :: Platform where
  "garbledPlatform = examplePlatform\<lparr>respond := (\<lambda>sent r. Response True 200 None)\<rparr>"

definition undecodablePlatform :: Platform where
  "undecodablePlatform = examplePlatform\<lparr>decodeURIComponent := (\<lambda>s. None)\<rparr>"

definition exampleOps :: "operation list" where
  "exampleOps =
     [Create ''videos/b.mp4'' (Some [(''status'', JStr ''ready'')]),
      Get ''videos/b.mp4'',
      Get ''videos/a.mp4'',
      Update ''videos/a.mp4'' [(''status'', JStr ''error'')],
      Get ''videos/a.mp4'']"

section \<open>Basic facts\<close>

lemmas model_defs =
  getAsset_def loadAsset_def saveAsset_def createAsset_def updateAsset_def newAssetDetails_def
  newRecord_def spread_def fetch_def readClock_def getAssetConfigPath_def getAssetPath_def
  defaultRemoteSourceAssetPath_def remoteFragment_def transformAsset_def mergedAsset_def deepMerge_def
  statusIsReady_def Let_def

lemmas example_defs =
  examplePlatform_def exampleConfig_def exampleStore_def emptyWorld_def cachedWorld_def
  exampleTransformers_def readyRecord_def pendingRecord_def staleRecord_def
  examplePatch_def updatedRecord_def updatedWorld_def exampleOps_def
  exampleOverrides_def createdRecord_def createdWorld_def keptSizeRecord_def bareRecord_def
  refusingPlatform_def redatingPatch_def redatedRecord_def resettingTransformers_def
  resetRecord_def nestedRecord_def nestedWorld_def nestedPatch_def nestedMerged_def
  mixedTransformers_def rejectingPlatform_def garbledPlatform_def undecodablePlatform_def

lemma statusIsReady_string:
  "map_of asset ''status'' = Some (JStr s) \<Longrightarrow> statusIsReady asset = (s = ''ready'')"
  by (simp add: statusIsReady_def)

lemma getAsset_resolved:
  "getAssetConfigPath P cfg filePath = Inr key \<Longrightarrow>
   getAsset P cfg filePath w = loadAsset P (apiBaseUrl cfg) key w"
  by (simp add: getAsset_def)

lemma getAsset_unresolved:
  "getAssetConfigPath P cfg filePath = Inl e \<Longrightarrow> getAsset P cfg filePath w = (Inl e, w)"
  by (simp add: getAsset_def)

lemma loadAsset_hit:
  "assetCache w key = Some cached \<Longrightarrow> loadAsset P base key w = (Inr cached, w)"
  by (simp add: loadAsset_def)

lemma loadAsset_miss:
  "assetCache w key = None \<Longrightarrow>
   loadAsset P base key w =
     (case respond P (netLog w) (GET (base @ ''/'' @ key)) of
        Rejected \<Rightarrow> (Inl FetchRejected, w\<lparr>netLog := netLog w @ [GET (base @ ''/'' @ key)]\<rparr>)
      | Response ok code body \<Rightarrow>
          if \<not> ok then (Inl AssetNotFound, w\<lparr>netLog := netLog w @ [GET (base @ ''/'' @ key)]\<rparr>)
          else
            (case body of
               None \<Rightarrow> (Inl InvalidJSON, w\<lparr>netLog := netLog w @ [GET (base @ ''/'' @ key)]\<rparr>)
             | Some asset \<Rightarrow>
                 (Inr asset,
                  w\<lparr>netLog := netLog w @ [GET (base @ ''/'' @ key)],
                    assetCache :=
                      if statusIsReady asset then (assetCache w)(key \<mapsto> asset) else assetCache w\<rparr>)))"
  by (simp add: loadAsset_def fetch_def split: response.split option.split)

lemma loadAsset_miss_netLog:
  "assetCache w key = None \<Longrightarrow>
   netLog (snd (loadAsset P base key w)) = netLog w @ [GET (base @ ''/'' @ key)]"
  by (simp add: loadAsset_miss split: response.split option.split)

lemma loadAsset_miss_loaded:
  "assetCache w key = None \<Longrightarrow>
   respond P (netLog w) (GET (base @ ''/'' @ key)) = Response True code (Some asset) \<Longrightarrow>
   fst (loadAsset P base key w) = Inr asset \<and>
   assetCache (snd (loadAsset P base key w)) =
     (if statusIsReady asset then (assetCache w)(key \<mapsto> asset) else assetCache w)"
  by (simp add: loadAsset_miss)

section \<open>Reading a record\<close>

text \<open>
  C1. \<^verbatim>\<open>getAsset\<close> looks the resolved storage key up in the cache first. On a hit it
  returns the cached record and leaves the world as it was: no request is sent. On a miss it
  sends exactly one request, the read of the key; when the store answers with a record, that
  record is returned, and it is put into the cache under the key if and only if the test
  \<^verbatim>\<open>asset.status == "ready"\<close> of line 67 holds of it. Of a status that is a string, as
  \<^verbatim>\<open>interface Asset\<close> declares it, the test is equality with \<^verbatim>\<open>ready\<close>
  (\<open>statusIsReady_string\<close>).
\<close>

theorem getAsset_cache_first:
  assumes "getAssetConfigPath P cfg filePath = Inr key"
  shows "(\<forall>cached. assetCache w key = Some cached \<longrightarrow>
            getAsset P cfg filePath w = (Inr cached, w))
       \<and> (assetCache w key = None \<longrightarrow>
            netLog (snd (getAsset P cfg filePath w))
              = netLog w @ [GET (apiBaseUrl cfg @ ''/'' @ key)]
          \<and> (\<forall>code asset.
                respond P (netLog w) (GET (apiBaseUrl cfg @ ''/'' @ key))
                  = Response True code (Some asset) \<longrightarrow>
                fst (getAsset P cfg filePath w) = Inr asset
              \<and> assetCache (snd (getAsset P cfg filePath w))
                  = (if statusIsReady asset then (assetCache w)(key \<mapsto> asset)
                     else assetCache w)))"
  using assms
  by (simp add: getAsset_resolved loadAsset_hit loadAsset_miss_netLog loadAsset_miss_loaded)

lemma example_key_a:
  "getAssetConfigPath examplePlatform exampleConfig ''videos/a.mp4'' = Inr ''videos/a.mp4.json''"
  by (simp add: getAssetConfigPath_def getAssetPath_def examplePlatform_def)

lemma example_key_b:
  "getAssetConfigPath examplePlatform exampleConfig ''videos/b.mp4'' = Inr ''videos/b.mp4.json''"
  by (simp add: getAssetConfigPath_def getAssetPath_def examplePlatform_def)

lemma ready_readyRecord: "statusIsReady readyRecord"
  by (simp add: statusIsReady_def readyRecord_def)

lemma not_ready_pendingRecord: "\<not> statusIsReady pendingRecord"
  by (simp add: statusIsReady_def pendingRecord_def)

theorem getAsset_cache_first_witness:
  "getAssetConfigPath examplePlatform exampleConfig ''videos/a.mp4'' = Inr ''videos/a.mp4.json''
   \<and> assetCache emptyWorld ''videos/a.mp4.json'' = None
   \<and> netLog (snd (getAsset examplePlatform exampleConfig ''videos/a.mp4'' emptyWorld))
       = [GET ''https://api.test/videos/a.mp4.json'']
   \<and> fst (getAsset examplePlatform exampleConfig ''videos/a.mp4'' emptyWorld) = Inr readyRecord
   \<and> assetCache (snd (getAsset examplePlatform exampleConfig ''videos/a.mp4'' emptyWorld))
       = [''videos/a.mp4.json'' \<mapsto> readyRecord]
   \<and> fst (getAsset examplePlatform exampleConfig ''videos/b.mp4'' emptyWorld) = Inr pendingRecord
   \<and> assetCache (snd (getAsset examplePlatform exampleConfig ''videos/b.mp4'' emptyWorld))
       = Map.empty
   \<and> getAsset examplePlatform exampleConfig ''videos/a.mp4'' cachedWorld
       = (Inr staleRecord, cachedWorld)"
proof -
  have miss: "assetCache emptyWorld k = None" for k
    by (simp add: emptyWorld_def)
  have log: "netLog emptyWorld = []" "assetCache emptyWorld = Map.empty"
    by (simp_all add: emptyWorld_def)
  have base: "apiBaseUrl exampleConfig = ''https://api.test''"
    by (simp add: exampleConfig_def)
  have ra: "respond examplePlatform [] (GET ''https://api.test/videos/a.mp4.json'')
      = Response True 200 (Some readyRecord)"
    by (simp add: examplePlatform_def exampleStore_def)
  have rb: "respond examplePlatform [] (GET ''https://api.test/videos/b.mp4.json'')
      = Response True 200 (Some pendingRecord)"
    by (simp add: examplePlatform_def exampleStore_def)
  have hit: "assetCache cachedWorld ''videos/a.mp4.json'' = Some staleRecord"
    by (simp add: cachedWorld_def)
  note a = getAsset_cache_first [OF example_key_a, of emptyWorld]
  note b = getAsset_cache_first [OF example_key_b, of emptyWorld]
  note c = getAsset_cache_first [OF example_key_a, of cachedWorld]
  from a have a1: "netLog (snd (getAsset examplePlatform exampleConfig ''videos/a.mp4'' emptyWorld))
       = [GET ''https://api.test/videos/a.mp4.json'']"
    by (simp add: miss log base)
  from a ra have a2: "fst (getAsset examplePlatform exampleConfig ''videos/a.mp4'' emptyWorld) = Inr readyRecord
     \<and> assetCache (snd (getAsset examplePlatform exampleConfig ''videos/a.mp4'' emptyWorld))
       = [''videos/a.mp4.json'' \<mapsto> readyRecord]"
    by (simp add: miss log base ready_readyRecord)
  from b rb have b2: "fst (getAsset examplePlatform exampleConfig ''videos/b.mp4'' emptyWorld) = Inr pendingRecord
     \<and> assetCache (snd (getAsset examplePlatform exampleConfig ''videos/b.mp4'' emptyWorld))
       = Map.empty"
    by (simp add: miss log base not_ready_pendingRecord)
  from c hit have c2: "getAsset examplePlatform exampleConfig ''videos/a.mp4'' cachedWorld
       = (Inr staleRecord, cachedWorld)"
    by simp
  from a1 a2 b2 c2 show ?thesis
    by (simp add: example_key_a miss)
qed

section \<open>The cache along sequences of operations\<close>

lemma loadAsset_cache_cases:
  "assetCache (snd (loadAsset P base key w)) = assetCache w \<or>
   (assetCache w key = None \<and>
    (\<exists>a. statusIsReady a \<and> assetCache (snd (loadAsset P base key w)) = (assetCache w)(key \<mapsto> a)))"
proof (cases "assetCache w key")
  case None
  then show ?thesis
    by (auto simp: loadAsset_miss split: response.split option.split)
next
  case (Some cached)
  then show ?thesis by (simp add: loadAsset_hit)
qed

lemma getAsset_cache_cases:
  "assetCache (snd (getAsset P cfg filePath w)) = assetCache w \<or>
   (\<exists>key a. assetCache w key = None \<and> statusIsReady a \<and>
      assetCache (snd (getAsset P cfg filePath w)) = (assetCache w)(key \<mapsto> a))"
proof (cases "getAssetConfigPath P cfg filePath")
  case (Inl e)
  then show ?thesis by (simp add: getAsset_unresolved)
next
  case (Inr key)
  with loadAsset_cache_cases [of P "apiBaseUrl cfg" key w] show ?thesis
    by (auto simp: getAsset_resolved)
qed

lemma saveAsset_frame:
  "assetCache (snd (saveAsset P base key asset w)) = assetCache w
   \<and> statLog (snd (saveAsset P base key asset w)) = statLog w
   \<and> clockReads (snd (saveAsset P base key asset w)) = clockReads w
   \<and> netLog (snd (saveAsset P base key asset w)) = netLog w @ [POST base key asset]"
  by (simp add: saveAsset_def fetch_def split: response.split)

lemma newAssetDetails_frame:
  "assetCache (snd (newAssetDetails P cfg filePath assetDetails w)) = assetCache w
   \<and> netLog (snd (newAssetDetails P cfg filePath assetDetails w)) = netLog w"
  by (simp add: newAssetDetails_def readClock_def Let_def)

lemma createAsset_cache:
  "assetCache (snd (createAsset P cfg filePath assetDetails w)) = assetCache w"
proof (cases "getAssetConfigPath P cfg filePath")
  case (Inl e)
  then show ?thesis by (simp add: createAsset_def)
next
  case (Inr key)
  obtain asset w3 where built: "newAssetDetails P cfg filePath assetDetails w = (asset, w3)"
    by (cases "newAssetDetails P cfg filePath assetDetails w")
  obtain res w4 where saved: "saveAsset P (apiBaseUrl cfg) key asset w3 = (res, w4)"
    by (cases "saveAsset P (apiBaseUrl cfg) key asset w3")
  from saveAsset_frame [of P "apiBaseUrl cfg" key asset w3] saved
  have "assetCache w4 = assetCache w3" by simp
  moreover from newAssetDetails_frame [of P cfg filePath assetDetails w] built
  have "assetCache w3 = assetCache w" by simp
  ultimately show ?thesis
    using Inr built saved by (cases res) (simp_all add: createAsset_def)
qed

lemma updateAsset_cache:
  "assetCache (snd (updateAsset P cfg ts filePath patch w))
     = assetCache (snd (getAsset P cfg filePath w))"
proof (cases "getAssetConfigPath P cfg filePath")
  case (Inl e)
  then show ?thesis by (simp add: updateAsset_def getAsset_unresolved)
next
  case (Inr key)
  obtain res w1 where got: "getAsset P cfg filePath w = (res, w1)"
    by (cases "getAsset P cfg filePath w")
  show ?thesis
  proof (cases res)
    case (Inl e)
    with Inr got show ?thesis by (simp add: updateAsset_def)
  next
    case cur: (Inr currentAsset)
    let ?w2 = "snd (readClock P w1)"
    let ?new = "transformAsset P ts (mergedAsset currentAsset patch (fst (readClock P w1)))"
    have "assetCache (snd (saveAsset P (apiBaseUrl cfg) key ?new ?w2)) = assetCache ?w2"
      by (simp add: saveAsset_frame)
    also have "\<dots> = assetCache w1" by (simp add: readClock_def)
    finally show ?thesis
      using Inr got cur
      by (simp add: updateAsset_def split_beta Let_def split: sum.split prod.split)
  qed
qed

lemma perform_cache_cases:
  "assetCache (snd (perform P cfg ts operation w)) = assetCache w \<or>
   (\<exists>key a. assetCache w key = None \<and> statusIsReady a \<and>
      assetCache (snd (perform P cfg ts operation w)) = (assetCache w)(key \<mapsto> a))"
proof (cases operation)
  case (Get filePath)
  with getAsset_cache_cases [of P cfg filePath w] show ?thesis by simp
next
  case (Create filePath assetDetails)
  then show ?thesis by (simp add: createAsset_cache)
next
  case (Update filePath patch)
  with getAsset_cache_cases [of P cfg filePath w] show ?thesis
    by (simp add: updateAsset_cache)
qed

lemma perform_keeps_entries:
  "assetCache w k = Some a \<Longrightarrow> assetCache (snd (perform P cfg ts operation w)) k = Some a"
  using perform_cache_cases [of P cfg ts operation w] by auto

lemma perform_new_entries_ready:
  "assetCache (snd (perform P cfg ts operation w)) k = Some a \<Longrightarrow>
   assetCache w k = Some a \<or> statusIsReady a"
  using perform_cache_cases [of P cfg ts operation w] by (auto split: if_splits)

lemma run_keeps_entries:
  "assetCache w k = Some a \<Longrightarrow> assetCache (run P cfg ts ops w) k = Some a"
  by (induction ops arbitrary: w) (simp_all add: perform_keeps_entries)

lemma run_new_entries_ready:
  "assetCache (run P cfg ts ops w) k = Some a \<Longrightarrow> assetCache w k = Some a \<or> statusIsReady a"
proof (induction ops arbitrary: w)
  case Nil
  then show ?case by simp
next
  case (Cons operation ops)
  from Cons.prems have "assetCache (run P cfg ts ops (snd (perform P cfg ts operation w))) k = Some a"
    by simp
  from Cons.IH [OF this] show ?case
    using perform_new_entries_ready [of P cfg ts operation w k a] by blast
qed

text \<open>
  C2. Along every sequence of \<^verbatim>\<open>getAsset\<close>, \<^verbatim>\<open>createAsset\<close> and \<^verbatim>\<open>updateAsset\<close> calls, an
  entry of the cache is never removed or replaced; an entry that was not there before
  passed the test \<^verbatim>\<open>asset.status == "ready"\<close> when it was put in; so a cache that holds
  only ready records, as the empty cache the module starts with does, holds only ready
  records ever after.
\<close>

theorem cache_holds_ready_records_only:
  "(\<forall>k a. assetCache w k = Some a \<longrightarrow> assetCache (run P cfg ts ops w) k = Some a)
   \<and> (\<forall>k a. assetCache (run P cfg ts ops w) k = Some a \<longrightarrow>
          assetCache w k = Some a \<or> statusIsReady a)
   \<and> (cacheAllReady w \<longrightarrow> cacheAllReady (run P cfg ts ops w))"
proof -
  have "cacheAllReady (run P cfg ts ops w)" if "cacheAllReady w"
    unfolding cacheAllReady_def
  proof (intro allI impI)
    fix k a
    assume "assetCache (run P cfg ts ops w) k = Some a"
    then have "assetCache w k = Some a \<or> statusIsReady a"
      by (rule run_new_entries_ready)
    with that show "statusIsReady a"
      by (auto simp: cacheAllReady_def)
  qed
  then show ?thesis
    using run_keeps_entries run_new_entries_ready by blast
qed

text \<open>
  C10. \<^verbatim>\<open>updateAsset\<close> never writes to the cache: after a successful update the cache is
  the one its internal \<^verbatim>\<open>getAsset\<close> left. When the key was cached before, the cache still
  holds that record afterwards, whatever the status of the record just saved, and the next
  \<^verbatim>\<open>getAsset\<close> returns it without a request.
\<close>

theorem updateAsset_leaves_cache:
  assumes "updateAsset P cfg ts filePath patch w = (Inr r, w')"
  shows "assetCache w' = assetCache (snd (getAsset P cfg filePath w))
     \<and> (\<forall>key old. getAssetConfigPath P cfg filePath = Inr key \<and> assetCache w key = Some old \<longrightarrow>
           assetCache w' key = Some old \<and> getAsset P cfg filePath w' = (Inr old, w'))"
proof -
  from updateAsset_cache [of P cfg ts filePath patch w] assms
  have same: "assetCache w' = assetCache (snd (getAsset P cfg filePath w))"
    by simp
  have "assetCache w' key = Some old \<and> getAsset P cfg filePath w' = (Inr old, w')"
    if key: "getAssetConfigPath P cfg filePath = Inr key" and old: "assetCache w key = Some old"
    for key old
  proof -
    from key old have "getAsset P cfg filePath w = (Inr old, w)"
      by (simp add: getAsset_resolved loadAsset_hit)
    with same old have "assetCache w' key = Some old" by simp
    with key show ?thesis
      by (simp add: getAsset_resolved loadAsset_hit)
  qed
  with same show ?thesis by blast
qed

section \<open>The cache on the installation\<close>

lemma example_run_cache:
  "assetCache (run examplePlatform exampleConfig exampleTransformers exampleOps emptyWorld)
     = [''videos/a.mp4.json'' \<mapsto> readyRecord]"
  by (simp add: model_defs example_defs)

lemma example_update:
  "updateAsset examplePlatform exampleConfig exampleTransformers ''videos/a.mp4''
      examplePatch cachedWorld
   = (Inr updatedRecord, updatedWorld)"
  by (simp add: model_defs example_defs)

theorem cache_holds_ready_records_only_witness:
  "cacheAllReady emptyWorld
   \<and> cacheAllReady (run examplePlatform exampleConfig exampleTransformers exampleOps emptyWorld)
   \<and> assetCache (run examplePlatform exampleConfig exampleTransformers exampleOps emptyWorld)
       = [''videos/a.mp4.json'' \<mapsto> readyRecord]
   \<and> assetCache cachedWorld ''videos/a.mp4.json'' = Some staleRecord
   \<and> assetCache (run examplePlatform exampleConfig exampleTransformers exampleOps cachedWorld)
         ''videos/a.mp4.json'' = Some staleRecord"
proof -
  have empty: "cacheAllReady emptyWorld"
    by (simp add: cacheAllReady_def emptyWorld_def)
  have stale: "assetCache cachedWorld ''videos/a.mp4.json'' = Some staleRecord"
    by (simp add: cachedWorld_def)
  note run_empty = cache_holds_ready_records_only
    [of emptyWorld examplePlatform exampleConfig exampleTransformers exampleOps]
  note run_cached = cache_holds_ready_records_only
    [of cachedWorld examplePlatform exampleConfig exampleTransformers exampleOps]
  from run_empty empty
  have "cacheAllReady (run examplePlatform exampleConfig exampleTransformers exampleOps emptyWorld)"
    by blast
  moreover from run_cached stale
  have "assetCache (run examplePlatform exampleConfig exampleTransformers exampleOps cachedWorld)
         ''videos/a.mp4.json'' = Some staleRecord"
    by blast
  ultimately show ?thesis
    using empty stale example_run_cache by simp
qed

theorem updateAsset_leaves_cache_witness:
  "updateAsset examplePlatform exampleConfig exampleTransformers ''videos/a.mp4''
      examplePatch cachedWorld
     = (Inr updatedRecord, updatedWorld)
   \<and> statusIsReady updatedRecord
   \<and> updatedRecord \<noteq> staleRecord
   \<and> assetCache updatedWorld ''videos/a.mp4.json'' = Some staleRecord
   \<and> getAsset examplePlatform exampleConfig ''videos/a.mp4'' updatedWorld
       = (Inr staleRecord, updatedWorld)"
proof -
  have stale: "assetCache cachedWorld ''videos/a.mp4.json'' = Some staleRecord"
    by (simp add: cachedWorld_def)
  have differ: "statusIsReady updatedRecord \<and> updatedRecord \<noteq> staleRecord"
    by (simp add: statusIsReady_def updatedRecord_def staleRecord_def)
  from updateAsset_leaves_cache [OF example_update] example_key_a stale
  have "assetCache updatedWorld ''videos/a.mp4.json'' = Some staleRecord
   \<and> getAsset examplePlatform exampleConfig ''videos/a.mp4'' updatedWorld
       = (Inr staleRecord, updatedWorld)"
    by blast
  with example_update differ show ?thesis by simp
qed

section \<open>Resolution and dispatch\<close>

lemma getAssetConfigPath_remote:
  "isRemote P filePath \<Longrightarrow>
   getAssetConfigPath P cfg filePath =
     (case folder cfg of
        None \<Rightarrow> Inl MissingFolderConfig
      | Some dir \<Rightarrow>
          if dir = [] then Inl MissingFolderConfig
          else
            (case remoteSourceAssetPath cfg of
               Some custom \<Rightarrow> Inr (pathJoin P dir (custom filePath) @ ''.json'')
             | None \<Rightarrow>
                 (case parseURL P filePath of
                    None \<Rightarrow> Inl InvalidURL
                  | Some (hostname, pathname) \<Rightarrow>
                      (case decodeURIComponent P (hostname @ pathname) of
                         None \<Rightarrow> Inl MalformedURI
                       | Some decoded \<Rightarrow>
                           Inr (pathJoin P dir (toSafePath P decoded) @ ''.json'')))))"
  by (simp add: getAssetConfigPath_def getAssetPath_def remoteFragment_def
      defaultRemoteSourceAssetPath_def split: option.split prod.split)

text \<open>
  C7, as the claim states it, fails: with a folder configured, a remote reference that
  \<^verbatim>\<open>new URL\<close> rejects is not joined under the folder, the resolution fails with the error
  of line 98; and a folder that is configured, but empty, gives the error of line 91.
\<close>

theorem storage_key_unparsable_url:
  "isRemote examplePlatform ''http://''
   \<and> folder exampleConfig = Some ''videos''
   \<and> getAssetConfigPath examplePlatform exampleConfig ''http://'' = Inl InvalidURL
   \<and> isRemote examplePlatform ''https://cdn.test/c.mp4''
   \<and> folder (exampleConfig\<lparr>folder := Some []\<rparr>) = Some []
   \<and> getAssetConfigPath examplePlatform (exampleConfig\<lparr>folder := Some []\<rparr>)
         ''https://cdn.test/c.mp4'' = Inl MissingFolderConfig"
  by (simp add: model_defs example_defs)

text \<open>
  C7, amended. The storage key of a local reference is the reference itself with
  \<^verbatim>\<open>.json\<close> appended, whatever the configuration holds. For a remote reference the
  resolution fails with the error of line 91 exactly when \<^verbatim>\<open>!folder\<close> holds (the folder is
  not set, or is the empty string). With a folder, the key is the fragment given by the
  configured strategy, joined under the folder, with \<^verbatim>\<open>.json\<close> appended; without a
  configured strategy the resolution fails when the url does not parse (line 98) or its host
  and path do not decode (line 102), and otherwise joins the sanitized decoded host and path
  under the folder and appends \<^verbatim>\<open>.json\<close>.
\<close>

theorem storage_key_resolution:
  "(\<not> isRemote P filePath \<longrightarrow> getAssetConfigPath P cfg filePath = Inr (filePath @ ''.json''))
   \<and> (isRemote P filePath \<longrightarrow>
        (getAssetConfigPath P cfg filePath = Inl MissingFolderConfig
           \<longleftrightarrow> folder cfg = None \<or> folder cfg = Some [])
      \<and> (\<forall>dir. folder cfg = Some dir \<and> dir \<noteq> [] \<longrightarrow>
            (\<forall>custom. remoteSourceAssetPath cfg = Some custom \<longrightarrow>
               getAssetConfigPath P cfg filePath
                 = Inr (pathJoin P dir (custom filePath) @ ''.json''))
          \<and> (remoteSourceAssetPath cfg = None \<longrightarrow>
               getAssetConfigPath P cfg filePath =
                 (case parseURL P filePath of
                    None \<Rightarrow> Inl InvalidURL
                  | Some (hostname, pathname) \<Rightarrow>
                      (case decodeURIComponent P (hostname @ pathname) of
                         None \<Rightarrow> Inl MalformedURI
                       | Some decoded \<Rightarrow>
                           Inr (pathJoin P dir (toSafePath P decoded) @ ''.json''))))))"
proof (intro conjI impI allI)
  assume "\<not> isRemote P filePath"
  then show "getAssetConfigPath P cfg filePath = Inr (filePath @ ''.json'')"
    by (simp add: getAssetConfigPath_def getAssetPath_def)
next
  assume remote: "isRemote P filePath"
  show "getAssetConfigPath P cfg filePath = Inl MissingFolderConfig
          \<longleftrightarrow> folder cfg = None \<or> folder cfg = Some []"
    by (auto simp: getAssetConfigPath_remote [OF remote] split: option.splits prod.splits)
next
  fix dir custom
  assume "isRemote P filePath" "folder cfg = Some dir \<and> dir \<noteq> []"
    "remoteSourceAssetPath cfg = Some custom"
  then show "getAssetConfigPath P cfg filePath = Inr (pathJoin P dir (custom filePath) @ ''.json'')"
    by (simp add: getAssetConfigPath_remote)
next
  fix dir
  assume "isRemote P filePath" "folder cfg = Some dir \<and> dir \<noteq> []"
    "remoteSourceAssetPath cfg = None"
  then show "getAssetConfigPath P cfg filePath =
      (case parseURL P filePath of
         None \<Rightarrow> Inl InvalidURL
       | Some (hostname, pathname) \<Rightarrow>
           (case decodeURIComponent P (hostname @ pathname) of
              None \<Rightarrow> Inl MalformedURI
            | Some decoded \<Rightarrow> Inr (pathJoin P dir (toSafePath P decoded) @ ''.json'')))"
    by (simp add: getAssetConfigPath_remote)
qed

theorem storage_key_resolution_witness:
  "\<not> isRemote examplePlatform ''videos/a.mp4''
   \<and> getAssetConfigPath examplePlatform exampleConfig ''videos/a.mp4'' = Inr ''videos/a.mp4.json''
   \<and> getAssetConfigPath examplePlatform (exampleConfig\<lparr>folder := None\<rparr>) ''videos/a.mp4''
       = Inr ''videos/a.mp4.json''
   \<and> isRemote examplePlatform ''https://cdn.test/c.mp4''
   \<and> getAssetConfigPath examplePlatform exampleConfig ''https://cdn.test/c.mp4''
       = Inr ''videos/cdn.test/c.mp4.json''
   \<and> getAssetConfigPath examplePlatform (exampleConfig\<lparr>folder := None\<rparr>) ''https://cdn.test/c.mp4''
       = Inl MissingFolderConfig
   \<and> getAssetConfigPath examplePlatform (exampleConfig\<lparr>folder := Some []\<rparr>) ''https://cdn.test/c.mp4''
       = Inl MissingFolderConfig
   \<and> isRemote examplePlatform ''http://''
   \<and> getAssetConfigPath examplePlatform exampleConfig ''http://'' = Inl InvalidURL
   \<and> getAssetConfigPath undecodablePlatform exampleConfig ''https://cdn.test/c.mp4''
       = Inl MalformedURI
   \<and> getAssetConfigPath examplePlatform
         (exampleConfig\<lparr>remoteSourceAssetPath := Some (\<lambda>url. ''remote/c.mp4'')\<rparr>)
         ''https://cdn.test/c.mp4'' = Inr ''videos/remote/c.mp4.json''"
proof -
  have local: "\<not> isRemote examplePlatform ''videos/a.mp4''"
    and remote: "isRemote examplePlatform ''https://cdn.test/c.mp4''"
      "isRemote undecodablePlatform ''https://cdn.test/c.mp4''"
    and bad: "isRemote examplePlatform ''http://''"
    by (simp_all add: examplePlatform_def undecodablePlatform_def)
  have dir: "folder exampleConfig = Some ''videos'' \<and> ''videos'' \<noteq> []"
    "remoteSourceAssetPath exampleConfig = None"
    by (simp_all add: example_defs)
  have parsed: "parseURL examplePlatform ''https://cdn.test/c.mp4'' = Some (''cdn.test'', ''/c.mp4'')"
    "decodeURIComponent examplePlatform ''cdn.test/c.mp4'' = Some ''cdn.test/c.mp4''"
    "toSafePath examplePlatform = (\<lambda>s. s)" "pathJoin examplePlatform = (\<lambda>a b. a @ ''/'' @ b)"
    "parseURL examplePlatform ''http://'' = None"
    "parseURL undecodablePlatform ''https://cdn.test/c.mp4'' = Some (''cdn.test'', ''/c.mp4'')"
    "decodeURIComponent undecodablePlatform ''cdn.test/c.mp4'' = None"
    by (simp_all add: examplePlatform_def undecodablePlatform_def)
  from storage_key_resolution [of examplePlatform "''videos/a.mp4''"] local
  have l: "getAssetConfigPath examplePlatform cfg ''videos/a.mp4'' = Inr ''videos/a.mp4.json''" for cfg
    by simp
  note at_c = storage_key_resolution
    [of examplePlatform "''https://cdn.test/c.mp4''", THEN conjunct2, rule_format, OF remote(1)]
  from at_c [of exampleConfig, THEN conjunct2, rule_format, OF dir(1), THEN conjunct2,
      rule_format, OF dir(2)] parsed
  have r1: "getAssetConfigPath examplePlatform exampleConfig ''https://cdn.test/c.mp4''
       = Inr ''videos/cdn.test/c.mp4.json''"
    by simp
  from at_c [of "exampleConfig\<lparr>folder := None\<rparr>", THEN conjunct1]
  have r2: "getAssetConfigPath examplePlatform (exampleConfig\<lparr>folder := None\<rparr>) ''https://cdn.test/c.mp4''
       = Inl MissingFolderConfig"
    by simp
  from at_c [of "exampleConfig\<lparr>folder := Some []\<rparr>", THEN conjunct1]
  have r3: "getAssetConfigPath examplePlatform (exampleConfig\<lparr>folder := Some []\<rparr>) ''https://cdn.test/c.mp4''
       = Inl MissingFolderConfig"
    by simp
  from storage_key_resolution
    [of examplePlatform "''http://''" exampleConfig, THEN conjunct2, rule_format, OF bad,
     THEN conjunct2, rule_format, OF dir(1), THEN conjunct2, rule_format, OF dir(2)] parsed
  have r4: "getAssetConfigPath examplePlatform exampleConfig ''http://'' = Inl InvalidURL"
    by simp
  from storage_key_resolution
    [of undecodablePlatform "''https://cdn.test/c.mp4''" exampleConfig, THEN conjunct2,
     rule_format, OF remote(2),
     THEN conjunct2, rule_format, OF dir(1), THEN conjunct2, rule_format, OF dir(2)] parsed
  have r5: "getAssetConfigPath undecodablePlatform exampleConfig ''https://cdn.test/c.mp4''
       = Inl MalformedURI"
    by simp
  have custom: "folder (exampleConfig\<lparr>remoteSourceAssetPath := Some (\<lambda>url. ''remote/c.mp4'')\<rparr>)
        = Some ''videos'' \<and> ''videos'' \<noteq> []"
    "remoteSourceAssetPath (exampleConfig\<lparr>remoteSourceAssetPath := Some (\<lambda>url. ''remote/c.mp4'')\<rparr>)
        = Some (\<lambda>url. ''remote/c.mp4'')"
    by (simp_all add: example_defs)
  from at_c [of "exampleConfig\<lparr>remoteSourceAssetPath := Some (\<lambda>url. ''remote/c.mp4'')\<rparr>",
      THEN conjunct2, rule_format, OF custom(1), THEN conjunct1, rule_format, OF custom(2)] parsed
  have r6: "getAssetConfigPath examplePlatform
         (exampleConfig\<lparr>remoteSourceAssetPath := Some (\<lambda>url. ''remote/c.mp4'')\<rparr>)
         ''https://cdn.test/c.mp4'' = Inr ''videos/remote/c.mp4.json''"
    by simp
  from local remote bad l r1 r2 r3 r4 r5 r6 show ?thesis by simp
qed

lemma transformLoop_map_of:
  "transformLoop P prov ts asset =
     (case map_of ts (camelCase P prov) of None \<Rightarrow> asset | Some transformer \<Rightarrow> transformer asset)"
  by (induction ts) auto

lemma updateAsset_result:
  assumes "updateAsset P cfg ts filePath patch w = (Inr r, w')"
  shows "\<exists>key cur w1.
           getAssetConfigPath P cfg filePath = Inr key
         \<and> getAsset P cfg filePath w = (Inr cur, w1)
         \<and> r = transformAsset P ts (mergedAsset cur patch (dateNow P (clockReads w1)))
         \<and> netLog w' = netLog w1 @ [POST (apiBaseUrl cfg) key r]"
proof (cases "getAssetConfigPath P cfg filePath")
  case (Inl e)
  with assms show ?thesis by (simp add: updateAsset_def)
next
  case (Inr key)
  obtain res w1 where got: "getAsset P cfg filePath w = (res, w1)"
    by (cases "getAsset P cfg filePath w")
  show ?thesis
  proof (cases res)
    case (Inl e)
    with Inr got assms show ?thesis by (simp add: updateAsset_def)
  next
    case cur: (Inr currentAsset)
    let ?now = "dateNow P (clockReads w1)"
    let ?w2 = "w1\<lparr>clockReads := Suc (clockReads w1)\<rparr>"
    let ?new = "transformAsset P ts (mergedAsset currentAsset patch ?now)"
    obtain out w3 where saved: "saveAsset P (apiBaseUrl cfg) key ?new ?w2 = (out, w3)"
      by (cases "saveAsset P (apiBaseUrl cfg) key ?new ?w2")
    from saveAsset_frame [of P "apiBaseUrl cfg" key ?new ?w2] saved
    have log: "netLog w3 = netLog w1 @ [POST (apiBaseUrl cfg) key ?new]" by simp
    from assms Inr got cur saved have "r = ?new \<and> w' = w3"
      by (cases out) (simp_all add: updateAsset_def readClock_def Let_def)
    with Inr got cur log show ?thesis by simp
  qed
qed

text \<open>
  C6. For every record and registry, the dispatcher returns the result of the transform
  registered under the camel-cased \<^verbatim>\<open>provider\<close> of the record, applied once to the record;
  with distinct registry keys that is the one entry whose key equals it. When no key matches,
  or the record has no provider (\<^verbatim>\<open>!provider\<close>: absent or falsy), the record is returned
  unchanged. A successful update returns the merged record passed through the dispatcher
  once.
\<close>

theorem transform_dispatch:
  "transformAsset P ts asset =
     (case map_of asset ''provider'' of
        None \<Rightarrow> asset
      | Some prov \<Rightarrow>
          if truthy prov
          then (case map_of ts (camelCase P prov) of
                  None \<Rightarrow> asset
                | Some transformer \<Rightarrow> transformer asset)
          else asset)
   \<and> (distinct (map fst ts) \<longrightarrow>
        (\<forall>prov key transformer.
           map_of asset ''provider'' = Some prov \<and> truthy prov \<and> (key, transformer) \<in> set ts
           \<and> key = camelCase P prov \<longrightarrow> transformAsset P ts asset = transformer asset))
   \<and> (\<forall>prov. map_of asset ''provider'' = Some prov \<and> camelCase P prov \<notin> fst ` set ts \<longrightarrow>
         transformAsset P ts asset = asset)
   \<and> (\<forall>r w'. updateAsset P cfg ts filePath patch w = (Inr r, w') \<longrightarrow>
         (\<exists>cur w1. getAsset P cfg filePath w = (Inr cur, w1)
            \<and> r = transformAsset P ts (mergedAsset cur patch (dateNow P (clockReads w1)))))"
proof -
  have eq: "transformAsset P ts asset =
     (case map_of asset ''provider'' of
        None \<Rightarrow> asset
      | Some prov \<Rightarrow>
          if truthy prov
          then (case map_of ts (camelCase P prov) of
                  None \<Rightarrow> asset
                | Some transformer \<Rightarrow> transformer asset)
          else asset)"
    by (simp add: transformAsset_def transformLoop_map_of split: option.split)
  have one: "transformAsset P ts asset = transformer asset"
    if "distinct (map fst ts)" "map_of asset ''provider'' = Some prov" "truthy prov"
      "(key, transformer) \<in> set ts" "key = camelCase P prov" for prov key transformer
  proof -
    from that have "map_of ts (camelCase P prov) = Some transformer" by simp
    with that show ?thesis by (simp add: eq)
  qed
  have none: "transformAsset P ts asset = asset"
    if "map_of asset ''provider'' = Some prov" "camelCase P prov \<notin> fst ` set ts" for prov
  proof -
    from that have "map_of ts (camelCase P prov) = None" by (simp add: map_of_eq_None_iff)
    with that show ?thesis by (simp add: eq)
  qed
  have upd: "\<exists>cur w1. getAsset P cfg filePath w = (Inr cur, w1)
            \<and> r = transformAsset P ts (mergedAsset cur patch (dateNow P (clockReads w1)))"
    if "updateAsset P cfg ts filePath patch w = (Inr r, w')" for r w'
    using updateAsset_result [OF that] by blast
  from eq one none upd show ?thesis by blast
qed

theorem transform_dispatch_witness:
  "map_of readyRecord ''provider'' = Some (JStr ''mux'')
   \<and> (''mux'', AList.update ''poster'' (JStr ''poster.jpg'')) \<in> set exampleTransformers
   \<and> transformAsset examplePlatform exampleTransformers readyRecord
       = AList.update ''poster'' (JStr ''poster.jpg'') readyRecord
   \<and> transformAsset examplePlatform [] readyRecord = readyRecord
   \<and> transformAsset examplePlatform exampleTransformers [(''status'', JStr ''pending'')]
       = [(''status'', JStr ''pending'')]
   \<and> updateAsset examplePlatform exampleConfig exampleTransformers ''videos/a.mp4''
        examplePatch cachedWorld = (Inr updatedRecord, updatedWorld)
   \<and> updatedRecord
       = transformAsset examplePlatform exampleTransformers (mergedAsset staleRecord examplePatch 1000)
   \<and> map_of updatedRecord ''poster'' = Some (JStr ''poster.jpg'')"
proof -
  note at_ready = transform_dispatch
    [of examplePlatform exampleTransformers readyRecord exampleConfig "''videos/a.mp4''"
        examplePatch cachedWorld]
  note at_empty = transform_dispatch
    [of examplePlatform "[]" readyRecord exampleConfig "''videos/a.mp4''" examplePatch cachedWorld]
  note at_bare = transform_dispatch
    [of examplePlatform exampleTransformers "[(''status'', JStr ''pending'')]" exampleConfig
        "''videos/a.mp4''" examplePatch cachedWorld]
  have prov: "map_of readyRecord ''provider'' = Some (JStr ''mux'')" "truthy (JStr ''mux'')"
    "camelCase examplePlatform (JStr ''mux'') = ''mux''"
    by (simp_all add: readyRecord_def examplePlatform_def)
  have reg: "distinct (map fst exampleTransformers)"
    "(''mux'', AList.update ''poster'' (JStr ''poster.jpg'')) \<in> set exampleTransformers"
    by (simp_all add: exampleTransformers_def)
  have a: "transformAsset examplePlatform exampleTransformers readyRecord
       = AList.update ''poster'' (JStr ''poster.jpg'') readyRecord"
    using at_ready [THEN conjunct2, THEN conjunct1, rule_format, OF reg(1),
        of "JStr ''mux''" "''mux''" "AList.update ''poster'' (JStr ''poster.jpg'')"] prov reg
    by simp
  from at_empty prov
  have b: "transformAsset examplePlatform [] readyRecord = readyRecord"
    by simp
  from at_bare
  have c: "transformAsset examplePlatform exampleTransformers [(''status'', JStr ''pending'')]
       = [(''status'', JStr ''pending'')]"
    by simp
  have hit: "getAsset examplePlatform exampleConfig ''videos/a.mp4'' cachedWorld
      = (Inr staleRecord, cachedWorld)"
    by (simp add: getAsset_resolved [OF example_key_a] loadAsset_hit cachedWorld_def)
  have clock: "dateNow examplePlatform (clockReads cachedWorld) = 1000"
    by (simp add: example_defs)
  from at_ready [THEN conjunct2, THEN conjunct2, THEN conjunct2, rule_format, OF example_update]
  have "\<exists>cur w1. getAsset examplePlatform exampleConfig ''videos/a.mp4'' cachedWorld = (Inr cur, w1)
      \<and> updatedRecord = transformAsset examplePlatform exampleTransformers
            (mergedAsset cur examplePatch (dateNow examplePlatform (clockReads w1)))"
    .
  with hit clock
  have d: "updatedRecord
       = transformAsset examplePlatform exampleTransformers (mergedAsset staleRecord examplePatch 1000)"
    by auto
  have e: "map_of updatedRecord ''poster'' = Some (JStr ''poster.jpg'')"
    by (simp add: updatedRecord_def)
  from prov reg a b c d e example_update show ?thesis by simp
qed

section \<open>What a new record holds\<close>

lemma map_of_foldl_update:
  "map_of (foldl (\<lambda>acc (k, v). AList.update k v acc) obj entries)
     = map_of obj ++ map_of (rev entries)"
proof (induction entries arbitrary: obj)
  case Nil
  show ?case by simp
next
  case (Cons entry entries)
  obtain k v where entry: "entry = (k, v)" by (cases entry)
  have "map_of (AList.update k v obj) ++ map_of (rev entries)
      = map_of obj ++ (map_of [(k, v)] ++ map_of (rev entries))"
    by (simp add: update_conv' fun_eq_iff map_add_def split: option.split)
  then show ?case
    by (simp add: entry Cons.IH)
qed

lemma map_of_spread:
  "map_of (spread src obj) k =
     (case src of
        None \<Rightarrow> map_of obj k
      | Some entries \<Rightarrow>
          (case map_of (rev entries) k of None \<Rightarrow> map_of obj k | Some v \<Rightarrow> Some v))"
  by (simp add: spread_def map_of_foldl_update map_add_def split: option.split)

lemma map_of_newRecord:
  "map_of (newRecord path prov ov created updated) =
     (\<lambda>k. if k = ''updatedAt'' then Some (JNum updated)
          else if k = ''createdAt'' then Some (JNum created)
          else if k = ''providerMetadata'' then Some (JObj [])
          else if k = ''provider'' then Some (JStr prov)
          else if k = ''originalFilePath'' then Some (JStr path)
          else map_of (spread ov [(''status'', JStr ''pending'')]) k)"
  by (simp add: newRecord_def update_conv' fun_eq_iff)

lemma newAssetDetails_fields:
  "k \<noteq> ''size'' \<Longrightarrow>
   map_of (fst (newAssetDetails P cfg filePath ov w)) k =
     map_of (newRecord (if isRemote P filePath then filePath else pathRelative P (cwd P) filePath)
               (provider cfg) ov (dateNow P (clockReads w)) (dateNow P (Suc (clockReads w)))) k"
  by (simp add: newAssetDetails_def readClock_def Let_def update_conv' split: option.split)

lemma createAsset_result:
  assumes "createAsset P cfg filePath ov w = (Inr r, w')"
  shows "\<exists>key. getAssetConfigPath P cfg filePath = Inr key
           \<and> r = fst (newAssetDetails P cfg filePath ov w)
           \<and> netLog w' = netLog w @ [POST (apiBaseUrl cfg) key r]"
proof (cases "getAssetConfigPath P cfg filePath")
  case (Inl e)
  with assms show ?thesis by (simp add: createAsset_def)
next
  case (Inr key)
  obtain asset w3 where built: "newAssetDetails P cfg filePath ov w = (asset, w3)"
    by (cases "newAssetDetails P cfg filePath ov w")
  obtain out w4 where saved: "saveAsset P (apiBaseUrl cfg) key asset w3 = (out, w4)"
    by (cases "saveAsset P (apiBaseUrl cfg) key asset w3")
  from saveAsset_frame [of P "apiBaseUrl cfg" key asset w3] saved
    newAssetDetails_frame [of P cfg filePath ov w] built
  have log: "netLog w4 = netLog w @ [POST (apiBaseUrl cfg) key asset]" by simp
  from assms Inr built saved have "r = asset \<and> w' = w4"
    by (cases out) (simp_all add: createAsset_def)
  with Inr built log show ?thesis by simp
qed

text \<open>
  C8. The record \<^verbatim>\<open>createAsset\<close> returns is the one it sent to the store. Its status is
  \<^verbatim>\<open>pending\<close> unless the overrides supply one (\<open>map_of (rev entries)\<close> reads the entry a
  spread assigns last, which for an object, whose keys are distinct, is its only one). Its
  \<^verbatim>\<open>originalFilePath\<close> is the reference made relative to the working directory when local
  and the reference itself when remote, its provider the configured one, its
  \<^verbatim>\<open>providerMetadata\<close> empty, and \<^verbatim>\<open>createdAt\<close> and \<^verbatim>\<open>updatedAt\<close> the two clock readings
  taken during the call, whatever the overrides hold for these five. The cache is left as it
  was.
\<close>

theorem createAsset_record:
  assumes "createAsset P cfg filePath ov w = (Inr r, w')"
  shows "map_of r ''status'' =
           Some (case ov of
                   None \<Rightarrow> JStr ''pending''
                 | Some entries \<Rightarrow>
                     (case map_of (rev entries) ''status'' of
                        None \<Rightarrow> JStr ''pending''
                      | Some supplied \<Rightarrow> supplied))
       \<and> map_of r ''originalFilePath'' =
           Some (JStr (if isRemote P filePath then filePath
                       else pathRelative P (cwd P) filePath))
       \<and> map_of r ''provider'' = Some (JStr (provider cfg))
       \<and> map_of r ''providerMetadata'' = Some (JObj [])
       \<and> map_of r ''createdAt'' = Some (JNum (dateNow P (clockReads w)))
       \<and> map_of r ''updatedAt'' = Some (JNum (dateNow P (Suc (clockReads w))))
       \<and> (\<exists>key. getAssetConfigPath P cfg filePath = Inr key
              \<and> netLog w' = netLog w @ [POST (apiBaseUrl cfg) key r])
       \<and> assetCache w' = assetCache w"
proof -
  from createAsset_result [OF assms] obtain key where
    key: "getAssetConfigPath P cfg filePath = Inr key"
    and r: "r = fst (newAssetDetails P cfg filePath ov w)"
    and log: "netLog w' = netLog w @ [POST (apiBaseUrl cfg) key r]"
    by blast
  from createAsset_cache [of P cfg filePath ov w] assms
  have cache: "assetCache w' = assetCache w" by simp
  have status: "map_of r ''status'' =
           Some (case ov of
                   None \<Rightarrow> JStr ''pending''
                 | Some entries \<Rightarrow>
                     (case map_of (rev entries) ''status'' of
                        None \<Rightarrow> JStr ''pending''
                      | Some supplied \<Rightarrow> supplied))"
    by (simp add: r newAssetDetails_fields map_of_newRecord map_of_spread split: option.split)
  have rest: "map_of r ''originalFilePath'' =
           Some (JStr (if isRemote P filePath then filePath
                       else pathRelative P (cwd P) filePath))"
    "map_of r ''provider'' = Some (JStr (provider cfg))"
    "map_of r ''providerMetadata'' = Some (JObj [])"
    "map_of r ''createdAt'' = Some (JNum (dateNow P (clockReads w)))"
    "map_of r ''updatedAt'' = Some (JNum (dateNow P (Suc (clockReads w))))"
    by (simp_all add: r newAssetDetails_fields map_of_newRecord)
  from status rest key log cache show ?thesis by simp
qed

lemma example_create:
  "createAsset examplePlatform exampleConfig ''/app/videos/d.mp4'' (Some exampleOverrides) emptyWorld
     = (Inr createdRecord, createdWorld)"
  by (simp add: model_defs example_defs)

theorem createAsset_record_witness:
  "createAsset examplePlatform exampleConfig ''/app/videos/d.mp4'' (Some exampleOverrides) emptyWorld
     = (Inr createdRecord, createdWorld)
   \<and> map_of createdRecord ''status'' = Some (JStr ''uploading'')
   \<and> map_of createdRecord ''originalFilePath'' = Some (JStr ''videos/d.mp4'')
   \<and> map_of createdRecord ''provider'' = Some (JStr ''mux'')
   \<and> map_of createdRecord ''providerMetadata'' = Some (JObj [])
   \<and> map_of createdRecord ''createdAt'' = Some (JNum 1000)
   \<and> map_of createdRecord ''updatedAt'' = Some (JNum 1001)
   \<and> netLog createdWorld = [POST ''https://api.test'' ''/app/videos/d.mp4.json'' createdRecord]
   \<and> assetCache createdWorld = Map.empty"
proof -
  have given: "map_of (rev exampleOverrides) ''status'' = Some (JStr ''uploading'')"
    "\<not> isRemote examplePlatform ''/app/videos/d.mp4''"
    "pathRelative examplePlatform (cwd examplePlatform) ''/app/videos/d.mp4'' = ''videos/d.mp4''"
    "provider exampleConfig = ''mux''"
    "dateNow examplePlatform (clockReads emptyWorld) = 1000"
    "dateNow examplePlatform (Suc (clockReads emptyWorld)) = 1001"
    "assetCache emptyWorld = Map.empty"
    by (simp_all add: example_defs)
  have log: "netLog createdWorld = [POST ''https://api.test'' ''/app/videos/d.mp4.json'' createdRecord]"
    by (simp add: createdWorld_def emptyWorld_def)
  from createAsset_record [OF example_create] given log example_create
  show ?thesis by simp
qed

section \<open>Errors\<close>

lemma newAssetDetails_size:
  "map_of (fst (newAssetDetails P cfg filePath ov w)) ''size'' =
     (if isRemote P filePath then map_of (spread ov [(''status'', JStr ''pending'')]) ''size''
      else
        (case stat P filePath of
           Some bytes \<Rightarrow> Some (JNum bytes)
         | None \<Rightarrow> map_of (spread ov [(''status'', JStr ''pending'')]) ''size''))"
  by (simp add: newAssetDetails_def readClock_def Let_def update_conv' map_of_newRecord
      split: option.split)

lemma newAssetDetails_statLog:
  "statLog (snd (newAssetDetails P cfg filePath ov w)) =
     (if isRemote P filePath then statLog w else statLog w @ [filePath])"
  by (simp add: newAssetDetails_def readClock_def Let_def)

lemma createAsset_resolved:
  "getAssetConfigPath P cfg filePath = Inr key \<Longrightarrow>
   createAsset P cfg filePath ov w =
     (case saveAsset P (apiBaseUrl cfg) key (fst (newAssetDetails P cfg filePath ov w))
             (snd (newAssetDetails P cfg filePath ov w)) of
        (Inl e, w4) \<Rightarrow> (Inl e, w4)
      | (Inr u, w4) \<Rightarrow> (Inr (fst (newAssetDetails P cfg filePath ov w)), w4))"
  by (simp add: createAsset_def split_beta split: prod.split)

lemma createAsset_statLog_remote:
  "isRemote P filePath \<Longrightarrow> statLog (snd (createAsset P cfg filePath ov w)) = statLog w"
proof (cases "getAssetConfigPath P cfg filePath")
  case (Inl e)
  then show ?thesis by (simp add: createAsset_def)
next
  case (Inr key)
  assume remote: "isRemote P filePath"
  let ?asset = "fst (newAssetDetails P cfg filePath ov w)"
  let ?w3 = "snd (newAssetDetails P cfg filePath ov w)"
  obtain out w4 where saved: "saveAsset P (apiBaseUrl cfg) key ?asset ?w3 = (out, w4)"
    by (cases "saveAsset P (apiBaseUrl cfg) key ?asset ?w3")
  from saveAsset_frame [of P "apiBaseUrl cfg" key ?asset ?w3] saved
  have "statLog w4 = statLog ?w3" by simp
  with remote have "statLog w4 = statLog w" by (simp add: newAssetDetails_statLog)
  with saved show ?thesis
    by (cases out) (simp_all add: createAsset_resolved [OF Inr])
qed

lemma saveAsset_accepted:
  "respond P (netLog w) (POST base key asset) = Response True code body \<Longrightarrow>
   fst (saveAsset P base key asset w) = Inr ()"
  by (simp add: saveAsset_def fetch_def)

lemma updateAsset_unresolved:
  "getAssetConfigPath P cfg filePath = Inl e \<Longrightarrow> updateAsset P cfg ts filePath patch w = (Inl e, w)"
  by (simp add: updateAsset_def)

lemma createAsset_unresolved:
  "getAssetConfigPath P cfg filePath = Inl e \<Longrightarrow> createAsset P cfg filePath ov w = (Inl e, w)"
  by (simp add: createAsset_def)

lemma updateAsset_read_error:
  "getAssetConfigPath P cfg filePath = Inr key \<Longrightarrow>
   fst (getAsset P cfg filePath w) = Inl e \<Longrightarrow>
   fst (updateAsset P cfg ts filePath patch w) = Inl e"
  by (cases "getAsset P cfg filePath w") (simp add: updateAsset_def)

lemma updateAsset_save_error:
  "getAssetConfigPath P cfg filePath = Inr key \<Longrightarrow>
   getAsset P cfg filePath w = (Inr cur, w1) \<Longrightarrow>
   fst (saveAsset P (apiBaseUrl cfg) key
          (transformAsset P ts (mergedAsset cur patch (dateNow P (clockReads w1))))
          (snd (readClock P w1))) = Inl e \<Longrightarrow>
   fst (updateAsset P cfg ts filePath patch w) = Inl e"
  by (cases "saveAsset P (apiBaseUrl cfg) key
          (transformAsset P ts (mergedAsset cur patch (dateNow P (clockReads w1))))
          (snd (readClock P w1))")
     (simp add: updateAsset_def readClock_def Let_def)

lemma createAsset_save_error:
  "getAssetConfigPath P cfg filePath = Inr key \<Longrightarrow>
   fst (saveAsset P (apiBaseUrl cfg) key (fst (newAssetDetails P cfg filePath ov w))
          (snd (newAssetDetails P cfg filePath ov w))) = Inl e \<Longrightarrow>
   fst (createAsset P cfg filePath ov w) = Inl e"
  by (cases "saveAsset P (apiBaseUrl cfg) key (fst (newAssetDetails P cfg filePath ov w))
          (snd (newAssetDetails P cfg filePath ov w))")
     (simp add: createAsset_resolved)

text \<open>
  C9, as the claim states it, fails where the overrides themselves carry a size: the file
  cannot be examined, and the returned record still has a \<^verbatim>\<open>size\<close> field.
\<close>

theorem stat_failure_with_size_override:
  "\<not> isRemote examplePlatform ''videos/missing.mp4''
   \<and> stat examplePlatform ''videos/missing.mp4'' = None
   \<and> fst (createAsset examplePlatform exampleConfig ''videos/missing.mp4''
            (Some exampleOverrides) emptyWorld) = Inr keptSizeRecord
   \<and> map_of keptSizeRecord ''size'' = Some (JNum 7)"
  by (simp add: model_defs example_defs)

lemma saveAsset_outcome:
  "fst (saveAsset P base key asset w) =
     (case respond P (netLog w) (POST base key asset) of
        Rejected \<Rightarrow> Inl FetchRejected
      | Response ok code body \<Rightarrow> if ok then Inr () else Inl (SaveFailed code))"
  by (simp add: saveAsset_def fetch_def split: response.split)

lemma createAsset_outcome:
  assumes "getAssetConfigPath P cfg filePath = Inr key"
  shows "fst (createAsset P cfg filePath ov w) =
     (case respond P (netLog w)
             (POST (apiBaseUrl cfg) key (fst (newAssetDetails P cfg filePath ov w))) of
        Rejected \<Rightarrow> Inl FetchRejected
      | Response ok code body \<Rightarrow>
          if ok then Inr (fst (newAssetDetails P cfg filePath ov w)) else Inl (SaveFailed code))"
proof -
  let ?asset = "fst (newAssetDetails P cfg filePath ov w)"
  let ?w3 = "snd (newAssetDetails P cfg filePath ov w)"
  have log: "netLog ?w3 = netLog w" by (simp add: newAssetDetails_frame)
  obtain out w4 where saved: "saveAsset P (apiBaseUrl cfg) key ?asset ?w3 = (out, w4)"
    by (cases "saveAsset P (apiBaseUrl cfg) key ?asset ?w3")
  with saveAsset_outcome [of P "apiBaseUrl cfg" key ?asset ?w3] log
  have out: "out = (case respond P (netLog w) (POST (apiBaseUrl cfg) key ?asset) of
        Rejected \<Rightarrow> Inl FetchRejected
      | Response ok code body \<Rightarrow> if ok then Inr () else Inl (SaveFailed code))"
    by simp
  from saved have "fst (createAsset P cfg filePath ov w)
      = (case out of Inl e \<Rightarrow> Inl e | Inr u \<Rightarrow> Inr ?asset)"
    by (simp add: createAsset_resolved [OF assms] split: sum.split)
  with out show ?thesis
    by (simp split: response.split)
qed

lemma updateAsset_outcome:
  assumes "getAssetConfigPath P cfg filePath = Inr key"
    and "getAsset P cfg filePath w = (Inr cur, w1)"
  shows "fst (updateAsset P cfg ts filePath patch w) =
     (case respond P (netLog w1)
             (POST (apiBaseUrl cfg) key
                (transformAsset P ts (mergedAsset cur patch (dateNow P (clockReads w1))))) of
        Rejected \<Rightarrow> Inl FetchRejected
      | Response ok code body \<Rightarrow>
          if ok then Inr (transformAsset P ts (mergedAsset cur patch (dateNow P (clockReads w1))))
          else Inl (SaveFailed code))"
proof -
  let ?new = "transformAsset P ts (mergedAsset cur patch (dateNow P (clockReads w1)))"
  let ?w2 = "w1\<lparr>clockReads := Suc (clockReads w1)\<rparr>"
  obtain out w3 where saved: "saveAsset P (apiBaseUrl cfg) key ?new ?w2 = (out, w3)"
    by (cases "saveAsset P (apiBaseUrl cfg) key ?new ?w2")
  with saveAsset_outcome [of P "apiBaseUrl cfg" key ?new ?w2]
  have out: "out = (case respond P (netLog w1) (POST (apiBaseUrl cfg) key ?new) of
        Rejected \<Rightarrow> Inl FetchRejected
      | Response ok code body \<Rightarrow> if ok then Inr () else Inl (SaveFailed code))"
    by simp
  from assms saved have "fst (updateAsset P cfg ts filePath patch w)
      = (case out of Inl e \<Rightarrow> Inl e | Inr u \<Rightarrow> Inr ?new)"
    by (simp add: updateAsset_def readClock_def Let_def split: sum.split)
  with out show ?thesis
    by (simp split: response.split)
qed

lemma getAsset_outcome_miss:
  assumes "getAssetConfigPath P cfg filePath = Inr key" and "assetCache w key = None"
  shows "fst (getAsset P cfg filePath w) =
     (case respond P (netLog w) (GET (apiBaseUrl cfg @ ''/'' @ key)) of
        Rejected \<Rightarrow> Inl FetchRejected
      | Response ok code body \<Rightarrow>
          if \<not> ok then Inl AssetNotFound
          else (case body of None \<Rightarrow> Inl InvalidJSON | Some asset \<Rightarrow> Inr asset))"
  using assms
  by (simp add: getAsset_resolved loadAsset_miss split: response.split option.split)

lemma updateAsset_never_line_169:
  "fst (updateAsset P cfg ts filePath patch w) \<noteq> Inl (AssetNotFoundFor s)"
proof (cases "getAssetConfigPath P cfg filePath")
  case (Inl e)
  then have "e \<noteq> AssetNotFoundFor s"
    by (auto simp: getAssetConfigPath_def getAssetPath_def remoteFragment_def
        defaultRemoteSourceAssetPath_def split: if_splits option.splits sum.splits prod.splits)
  with Inl show ?thesis by (simp add: updateAsset_unresolved)
next
  case (Inr key)
  obtain res w1 where got: "getAsset P cfg filePath w = (res, w1)"
    by (cases "getAsset P cfg filePath w")
  show ?thesis
  proof (cases res)
    case (Inl e)
    have "e \<noteq> AssetNotFoundFor s"
    proof (cases "assetCache w key")
      case None
      from getAsset_outcome_miss [OF Inr None] got Inl show ?thesis
        by (auto split: response.splits option.splits if_splits)
    next
      case (Some cached)
      with Inr got Inl show ?thesis
        by (simp add: getAsset_resolved loadAsset_hit)
    qed
    moreover from Inr got Inl have "fst (updateAsset P cfg ts filePath patch w) = Inl e"
      using updateAsset_read_error [of P cfg filePath key w e ts patch] by simp
    ultimately show ?thesis by simp
  next
    case cur: (Inr currentAsset)
    from got cur have "getAsset P cfg filePath w = (Inr currentAsset, w1)" by simp
    from updateAsset_outcome [OF Inr this, of ts patch] show ?thesis
      by (simp split: response.split)
  qed
qed


text \<open>
  C9, amended. For a local reference whose \<^verbatim>\<open>stat\<close> throws, \<^verbatim>\<open>createAsset\<close> sets no size
  from the file: the record has a size only if the overrides supplied one, which is kept; and
  no error comes of it: the call succeeds whenever the store accepts the write. For a remote
  reference no file is examined. Every other error reaches the caller as it arose. A missing
  folder, a url that does not parse and a host and path that do not decode fail all three
  operations with that error, before anything else is done. On a cache miss, a rejected
  \<^verbatim>\<open>fetch\<close>, an answer that is not ok and a body that does not parse fail \<^verbatim>\<open>getAsset\<close> and
  \<^verbatim>\<open>updateAsset\<close> with the error of the read. A rejected \<^verbatim>\<open>fetch\<close> and an answer that is not
  ok fail \<^verbatim>\<open>createAsset\<close> and \<^verbatim>\<open>updateAsset\<close> with the error of the write, which carries
  the status code. The error of line 169 does not arise: the current record is an object.
\<close>

theorem stat_failure_swallowed:
  "(\<not> isRemote P filePath \<and> stat P filePath = None \<longrightarrow>
       map_of (fst (newAssetDetails P cfg filePath ov w)) ''size'' =
         (case ov of None \<Rightarrow> None | Some entries \<Rightarrow> map_of (rev entries) ''size'')
     \<and> (\<forall>code body.
           respond P (netLog w)
             (POST (apiBaseUrl cfg) (filePath @ ''.json'')
                (fst (newAssetDetails P cfg filePath ov w))) = Response True code body \<longrightarrow>
           fst (createAsset P cfg filePath ov w) = Inr (fst (newAssetDetails P cfg filePath ov w))))
   \<and> (isRemote P filePath \<longrightarrow> statLog (snd (createAsset P cfg filePath ov w)) = statLog w)
   \<and> (isRemote P filePath \<and> (folder cfg = None \<or> folder cfg = Some []) \<longrightarrow>
         getAsset P cfg filePath w = (Inl MissingFolderConfig, w)
       \<and> createAsset P cfg filePath ov w = (Inl MissingFolderConfig, w)
       \<and> updateAsset P cfg ts filePath patch w = (Inl MissingFolderConfig, w))
   \<and> (\<forall>dir. isRemote P filePath \<and> folder cfg = Some dir \<and> dir \<noteq> []
         \<and> remoteSourceAssetPath cfg = None \<and> parseURL P filePath = None \<longrightarrow>
         getAsset P cfg filePath w = (Inl InvalidURL, w)
       \<and> createAsset P cfg filePath ov w = (Inl InvalidURL, w)
       \<and> updateAsset P cfg ts filePath patch w = (Inl InvalidURL, w))
   \<and> (\<forall>dir hostname pathname. isRemote P filePath \<and> folder cfg = Some dir \<and> dir \<noteq> []
         \<and> remoteSourceAssetPath cfg = None \<and> parseURL P filePath = Some (hostname, pathname)
         \<and> decodeURIComponent P (hostname @ pathname) = None \<longrightarrow>
         getAsset P cfg filePath w = (Inl MalformedURI, w)
       \<and> createAsset P cfg filePath ov w = (Inl MalformedURI, w)
       \<and> updateAsset P cfg ts filePath patch w = (Inl MalformedURI, w))
   \<and> (\<forall>key. getAssetConfigPath P cfg filePath = Inr key \<and> assetCache w key = None \<longrightarrow>
         (respond P (netLog w) (GET (apiBaseUrl cfg @ ''/'' @ key)) = Rejected \<longrightarrow>
            fst (getAsset P cfg filePath w) = Inl FetchRejected
          \<and> fst (updateAsset P cfg ts filePath patch w) = Inl FetchRejected)
       \<and> (\<forall>code body.
             respond P (netLog w) (GET (apiBaseUrl cfg @ ''/'' @ key)) = Response False code body \<longrightarrow>
             fst (getAsset P cfg filePath w) = Inl AssetNotFound
           \<and> fst (updateAsset P cfg ts filePath patch w) = Inl AssetNotFound)
       \<and> (\<forall>code.
             respond P (netLog w) (GET (apiBaseUrl cfg @ ''/'' @ key)) = Response True code None \<longrightarrow>
             fst (getAsset P cfg filePath w) = Inl InvalidJSON
           \<and> fst (updateAsset P cfg ts filePath patch w) = Inl InvalidJSON))
   \<and> (\<forall>key. getAssetConfigPath P cfg filePath = Inr key \<longrightarrow>
         (respond P (netLog w)
            (POST (apiBaseUrl cfg) key (fst (newAssetDetails P cfg filePath ov w))) = Rejected \<longrightarrow>
            fst (createAsset P cfg filePath ov w) = Inl FetchRejected)
       \<and> (\<forall>code body.
             respond P (netLog w)
               (POST (apiBaseUrl cfg) key (fst (newAssetDetails P cfg filePath ov w)))
               = Response False code body \<longrightarrow>
             fst (createAsset P cfg filePath ov w) = Inl (SaveFailed code)))
   \<and> (\<forall>key cur w1. getAssetConfigPath P cfg filePath = Inr key
         \<and> getAsset P cfg filePath w = (Inr cur, w1) \<longrightarrow>
         (respond P (netLog w1)
            (POST (apiBaseUrl cfg) key
               (transformAsset P ts (mergedAsset cur patch (dateNow P (clockReads w1)))))
            = Rejected \<longrightarrow>
            fst (updateAsset P cfg ts filePath patch w) = Inl FetchRejected)
       \<and> (\<forall>code body.
             respond P (netLog w1)
               (POST (apiBaseUrl cfg) key
                  (transformAsset P ts (mergedAsset cur patch (dateNow P (clockReads w1)))))
               = Response False code body \<longrightarrow>
             fst (updateAsset P cfg ts filePath patch w) = Inl (SaveFailed code)))
   \<and> (\<forall>s. fst (updateAsset P cfg ts filePath patch w) \<noteq> Inl (AssetNotFoundFor s))"
proof -
  let ?asset = "fst (newAssetDetails P cfg filePath ov w)"
  have unresolved: "getAsset P cfg filePath w = (Inl e, w)
       \<and> createAsset P cfg filePath ov w = (Inl e, w)
       \<and> updateAsset P cfg ts filePath patch w = (Inl e, w)"
    if "getAssetConfigPath P cfg filePath = Inl e" for e
    using that by (simp add: getAsset_unresolved createAsset_unresolved updateAsset_unresolved)
  have swallowed: "map_of ?asset ''size'' =
         (case ov of None \<Rightarrow> None | Some entries \<Rightarrow> map_of (rev entries) ''size'')
     \<and> (\<forall>code body.
           respond P (netLog w) (POST (apiBaseUrl cfg) (filePath @ ''.json'') ?asset)
             = Response True code body \<longrightarrow>
           fst (createAsset P cfg filePath ov w) = Inr ?asset)"
    if "\<not> isRemote P filePath \<and> stat P filePath = None"
  proof -
    from that have key: "getAssetConfigPath P cfg filePath = Inr (filePath @ ''.json'')"
      by (simp add: getAssetConfigPath_def getAssetPath_def)
    from that have "map_of ?asset ''size'' =
        (case ov of None \<Rightarrow> None | Some entries \<Rightarrow> map_of (rev entries) ''size'')"
      by (simp add: newAssetDetails_size map_of_spread split: option.split)
    then show ?thesis
      by (simp add: createAsset_outcome [OF key])
  qed
  have remote: "statLog (snd (createAsset P cfg filePath ov w)) = statLog w"
    if "isRemote P filePath"
    using that by (rule createAsset_statLog_remote)
  have nofolder: "getAsset P cfg filePath w = (Inl MissingFolderConfig, w)
       \<and> createAsset P cfg filePath ov w = (Inl MissingFolderConfig, w)
       \<and> updateAsset P cfg ts filePath patch w = (Inl MissingFolderConfig, w)"
    if "isRemote P filePath \<and> (folder cfg = None \<or> folder cfg = Some [])"
  proof -
    from that have "getAssetConfigPath P cfg filePath = Inl MissingFolderConfig"
      by (auto simp: getAssetConfigPath_remote)
    then show ?thesis by (rule unresolved)
  qed
  have badurl: "getAsset P cfg filePath w = (Inl InvalidURL, w)
       \<and> createAsset P cfg filePath ov w = (Inl InvalidURL, w)
       \<and> updateAsset P cfg ts filePath patch w = (Inl InvalidURL, w)"
    if "isRemote P filePath \<and> folder cfg = Some dir \<and> dir \<noteq> []
         \<and> remoteSourceAssetPath cfg = None \<and> parseURL P filePath = None" for dir
  proof -
    from that have "getAssetConfigPath P cfg filePath = Inl InvalidURL"
      by (simp add: getAssetConfigPath_remote)
    then show ?thesis by (rule unresolved)
  qed
  have baduri: "getAsset P cfg filePath w = (Inl MalformedURI, w)
       \<and> createAsset P cfg filePath ov w = (Inl MalformedURI, w)
       \<and> updateAsset P cfg ts filePath patch w = (Inl MalformedURI, w)"
    if "isRemote P filePath \<and> folder cfg = Some dir \<and> dir \<noteq> []
         \<and> remoteSourceAssetPath cfg = None \<and> parseURL P filePath = Some (hostname, pathname)
         \<and> decodeURIComponent P (hostname @ pathname) = None" for dir hostname pathname
  proof -
    from that have "getAssetConfigPath P cfg filePath = Inl MalformedURI"
      by (simp add: getAssetConfigPath_remote)
    then show ?thesis by (rule unresolved)
  qed
  have read: "(respond P (netLog w) (GET (apiBaseUrl cfg @ ''/'' @ key)) = Rejected \<longrightarrow>
            fst (getAsset P cfg filePath w) = Inl FetchRejected
          \<and> fst (updateAsset P cfg ts filePath patch w) = Inl FetchRejected)
       \<and> (\<forall>code body.
             respond P (netLog w) (GET (apiBaseUrl cfg @ ''/'' @ key)) = Response False code body \<longrightarrow>
             fst (getAsset P cfg filePath w) = Inl AssetNotFound
           \<and> fst (updateAsset P cfg ts filePath patch w) = Inl AssetNotFound)
       \<and> (\<forall>code.
             respond P (netLog w) (GET (apiBaseUrl cfg @ ''/'' @ key)) = Response True code None \<longrightarrow>
             fst (getAsset P cfg filePath w) = Inl InvalidJSON
           \<and> fst (updateAsset P cfg ts filePath patch w) = Inl InvalidJSON)"
    if "getAssetConfigPath P cfg filePath = Inr key \<and> assetCache w key = None" for key
  proof -
    from that have key: "getAssetConfigPath P cfg filePath = Inr key"
      and miss: "assetCache w key = None" by simp_all
    have relay: "fst (updateAsset P cfg ts filePath patch w) = Inl e"
      if "fst (getAsset P cfg filePath w) = Inl e" for e
      using key that by (rule updateAsset_read_error)
    show ?thesis
      using relay by (simp add: getAsset_outcome_miss [OF key miss])
  qed
  have write_create: "(respond P (netLog w) (POST (apiBaseUrl cfg) key ?asset) = Rejected \<longrightarrow>
            fst (createAsset P cfg filePath ov w) = Inl FetchRejected)
       \<and> (\<forall>code body.
             respond P (netLog w) (POST (apiBaseUrl cfg) key ?asset) = Response False code body \<longrightarrow>
             fst (createAsset P cfg filePath ov w) = Inl (SaveFailed code))"
    if "getAssetConfigPath P cfg filePath = Inr key" for key
    by (simp add: createAsset_outcome [OF that])
  have write_update: "(respond P (netLog w1)
            (POST (apiBaseUrl cfg) key
               (transformAsset P ts (mergedAsset cur patch (dateNow P (clockReads w1)))))
            = Rejected \<longrightarrow>
            fst (updateAsset P cfg ts filePath patch w) = Inl FetchRejected)
       \<and> (\<forall>code body.
             respond P (netLog w1)
               (POST (apiBaseUrl cfg) key
                  (transformAsset P ts (mergedAsset cur patch (dateNow P (clockReads w1)))))
               = Response False code body \<longrightarrow>
             fst (updateAsset P cfg ts filePath patch w) = Inl (SaveFailed code))"
    if "getAssetConfigPath P cfg filePath = Inr key \<and> getAsset P cfg filePath w = (Inr cur, w1)"
    for key cur w1
  proof -
    from that have key: "getAssetConfigPath P cfg filePath = Inr key"
      and got: "getAsset P cfg filePath w = (Inr cur, w1)" by simp_all
    show ?thesis
      by (simp add: updateAsset_outcome [OF key got])
  qed
  have guard: "fst (updateAsset P cfg ts filePath patch w) \<noteq> Inl (AssetNotFoundFor s)" for s
    by (rule updateAsset_never_line_169)
  show ?thesis
    apply (intro conjI)
    subgoal using swallowed by blast
    subgoal using remote by blast
    subgoal using nofolder by blast
    subgoal using badurl by blast
    subgoal using baduri by blast
    subgoal using read by blast
    subgoal using write_create by blast
    subgoal using write_update by blast
    subgoal using guard by blast
    done
qed


theorem stat_failure_swallowed_witness:
  "\<not> isRemote examplePlatform ''videos/missing.mp4''
   \<and> stat examplePlatform ''videos/missing.mp4'' = None
   \<and> fst (createAsset examplePlatform exampleConfig ''videos/missing.mp4'' None emptyWorld)
       = Inr bareRecord
   \<and> map_of bareRecord ''size'' = None
   \<and> isRemote examplePlatform ''https://cdn.test/c.mp4''
   \<and> statLog (snd (createAsset examplePlatform exampleConfig ''https://cdn.test/c.mp4'' None
                     emptyWorld)) = []
   \<and> updateAsset examplePlatform (exampleConfig\<lparr>folder := None\<rparr>) exampleTransformers
        ''https://cdn.test/c.mp4'' examplePatch emptyWorld = (Inl MissingFolderConfig, emptyWorld)
   \<and> getAsset examplePlatform exampleConfig ''http://'' emptyWorld = (Inl InvalidURL, emptyWorld)
   \<and> createAsset undecodablePlatform exampleConfig ''https://cdn.test/c.mp4'' None emptyWorld
       = (Inl MalformedURI, emptyWorld)
   \<and> fst (getAsset rejectingPlatform exampleConfig ''videos/a.mp4'' emptyWorld) = Inl FetchRejected
   \<and> fst (updateAsset examplePlatform exampleConfig exampleTransformers ''videos/zz.mp4''
            examplePatch emptyWorld) = Inl AssetNotFound
   \<and> fst (getAsset garbledPlatform exampleConfig ''videos/a.mp4'' emptyWorld) = Inl InvalidJSON
   \<and> fst (createAsset rejectingPlatform exampleConfig ''videos/missing.mp4'' None emptyWorld)
       = Inl FetchRejected
   \<and> fst (createAsset refusingPlatform exampleConfig ''videos/missing.mp4'' None emptyWorld)
       = Inl (SaveFailed 500)
   \<and> fst (updateAsset rejectingPlatform exampleConfig exampleTransformers ''videos/a.mp4''
            examplePatch cachedWorld) = Inl FetchRejected
   \<and> fst (updateAsset refusingPlatform exampleConfig exampleTransformers ''videos/a.mp4''
            examplePatch cachedWorld) = Inl (SaveFailed 500)"
proof -
  have local: "\<not> isRemote examplePlatform ''videos/missing.mp4''
      \<and> stat examplePlatform ''videos/missing.mp4'' = None"
    and remote: "isRemote examplePlatform ''https://cdn.test/c.mp4''"
    by (simp_all add: examplePlatform_def)
  have built: "fst (newAssetDetails examplePlatform exampleConfig ''videos/missing.mp4'' None
      emptyWorld) = bareRecord"
    by (simp add: model_defs example_defs)
  have accepted: "respond examplePlatform (netLog emptyWorld)
      (POST (apiBaseUrl exampleConfig) (''videos/missing.mp4'' @ ''.json'')
         (fst (newAssetDetails examplePlatform exampleConfig ''videos/missing.mp4'' None
                emptyWorld)))
        = Response True 200 None"
    by (simp add: example_defs)
  note at_missing = stat_failure_swallowed
    [of examplePlatform "''videos/missing.mp4''" exampleConfig None emptyWorld
        exampleTransformers examplePatch, THEN conjunct1, rule_format, OF local]
  from at_missing [THEN conjunct2, rule_format, OF accepted] built
  have created: "fst (createAsset examplePlatform exampleConfig ''videos/missing.mp4'' None emptyWorld)
       = Inr bareRecord"
    by simp
  from at_missing [THEN conjunct1] built
  have size: "map_of bareRecord ''size'' = None"
    by simp
  from stat_failure_swallowed
    [of examplePlatform "''https://cdn.test/c.mp4''" exampleConfig None emptyWorld
        exampleTransformers examplePatch, THEN conjunct2, THEN conjunct1, rule_format, OF remote]
  have untouched: "statLog (snd (createAsset examplePlatform exampleConfig
      ''https://cdn.test/c.mp4'' None emptyWorld)) = []"
    by (simp add: emptyWorld_def)
  have nofolder: "isRemote examplePlatform ''https://cdn.test/c.mp4''
      \<and> (folder (exampleConfig\<lparr>folder := None\<rparr>) = None
         \<or> folder (exampleConfig\<lparr>folder := None\<rparr>) = Some [])"
    by (simp add: examplePlatform_def)
  from stat_failure_swallowed
    [of examplePlatform "''https://cdn.test/c.mp4''" "exampleConfig\<lparr>folder := None\<rparr>" None
        emptyWorld exampleTransformers examplePatch,
     THEN conjunct2, THEN conjunct2, THEN conjunct1, rule_format, OF nofolder]
  have unresolved: "updateAsset examplePlatform (exampleConfig\<lparr>folder := None\<rparr>)
      exampleTransformers ''https://cdn.test/c.mp4'' examplePatch emptyWorld
        = (Inl MissingFolderConfig, emptyWorld)"
    by simp
  have badurl: "isRemote examplePlatform ''http://'' \<and> folder exampleConfig = Some ''videos''
      \<and> ''videos'' \<noteq> [] \<and> remoteSourceAssetPath exampleConfig = None
      \<and> parseURL examplePlatform ''http://'' = None"
    by (simp add: example_defs)
  from stat_failure_swallowed
    [of examplePlatform "''http://''" exampleConfig None emptyWorld exampleTransformers
        examplePatch,
     THEN conjunct2, THEN conjunct2, THEN conjunct2, THEN conjunct1, rule_format, OF badurl]
  have invalid: "getAsset examplePlatform exampleConfig ''http://'' emptyWorld
      = (Inl InvalidURL, emptyWorld)"
    by simp
  have baduri: "isRemote undecodablePlatform ''https://cdn.test/c.mp4''
      \<and> folder exampleConfig = Some ''videos''
      \<and> ''videos'' \<noteq> [] \<and> remoteSourceAssetPath exampleConfig = None
      \<and> parseURL undecodablePlatform ''https://cdn.test/c.mp4'' = Some (''cdn.test'', ''/c.mp4'')
      \<and> decodeURIComponent undecodablePlatform (''cdn.test'' @ ''/c.mp4'') = None"
    by (simp add: example_defs)
  from stat_failure_swallowed
    [of undecodablePlatform "''https://cdn.test/c.mp4''" exampleConfig None emptyWorld
        exampleTransformers examplePatch,
     THEN conjunct2, THEN conjunct2, THEN conjunct2, THEN conjunct2, THEN conjunct1,
     rule_format, OF baduri]
  have malformed: "createAsset undecodablePlatform exampleConfig ''https://cdn.test/c.mp4'' None
      emptyWorld = (Inl MalformedURI, emptyWorld)"
    by simp
  have key_a: "getAssetConfigPath P exampleConfig ''videos/a.mp4'' = Inr ''videos/a.mp4.json''"
    and key_zz: "getAssetConfigPath P exampleConfig ''videos/zz.mp4'' = Inr ''videos/zz.mp4.json''"
    and key_missing:
      "getAssetConfigPath P exampleConfig ''videos/missing.mp4'' = Inr ''videos/missing.mp4.json''"
    if "isRemote P = isRemote examplePlatform" for P
    using that by (simp_all add: getAssetConfigPath_def getAssetPath_def examplePlatform_def)
  have same: "isRemote rejectingPlatform = isRemote examplePlatform"
    "isRemote refusingPlatform = isRemote examplePlatform"
    "isRemote garbledPlatform = isRemote examplePlatform"
    by (simp_all add: rejectingPlatform_def refusingPlatform_def garbledPlatform_def)
  have miss: "assetCache emptyWorld k = None" for k
    by (simp add: emptyWorld_def)
  have answers:
    "respond rejectingPlatform sent r = Rejected"
    "respond refusingPlatform sent r = Response False 500 None"
    "respond garbledPlatform sent r = Response True 200 None"
    "respond examplePlatform (netLog emptyWorld)
       (GET (apiBaseUrl exampleConfig @ ''/'' @ ''videos/zz.mp4.json'')) = Response False 404 None"
    for sent r
    by (simp_all add: example_defs)
  from stat_failure_swallowed
    [of rejectingPlatform "''videos/a.mp4''" exampleConfig None emptyWorld exampleTransformers
        examplePatch,
     THEN conjunct2, THEN conjunct2, THEN conjunct2, THEN conjunct2, THEN conjunct2,
     THEN conjunct1, rule_format, OF conjI [OF key_a [OF same(1)] miss],
     THEN conjunct1, rule_format, OF answers(1)]
  have read_rejected: "fst (getAsset rejectingPlatform exampleConfig ''videos/a.mp4'' emptyWorld)
      = Inl FetchRejected"
    by simp
  from stat_failure_swallowed
    [of examplePlatform "''videos/zz.mp4''" exampleConfig None emptyWorld exampleTransformers
        examplePatch,
     THEN conjunct2, THEN conjunct2, THEN conjunct2, THEN conjunct2, THEN conjunct2,
     THEN conjunct1, rule_format, OF conjI [OF key_zz [OF refl] miss],
     THEN conjunct2, THEN conjunct1, rule_format, OF answers(4)]
  have read_missing: "fst (updateAsset examplePlatform exampleConfig exampleTransformers
      ''videos/zz.mp4'' examplePatch emptyWorld) = Inl AssetNotFound"
    by simp
  from stat_failure_swallowed
    [of garbledPlatform "''videos/a.mp4''" exampleConfig None emptyWorld exampleTransformers
        examplePatch,
     THEN conjunct2, THEN conjunct2, THEN conjunct2, THEN conjunct2, THEN conjunct2,
     THEN conjunct1, rule_format, OF conjI [OF key_a [OF same(3)] miss],
     THEN conjunct2, THEN conjunct2, rule_format, OF answers(3)]
  have read_garbled: "fst (getAsset garbledPlatform exampleConfig ''videos/a.mp4'' emptyWorld)
      = Inl InvalidJSON"
    by simp
  from stat_failure_swallowed
    [of rejectingPlatform "''videos/missing.mp4''" exampleConfig None emptyWorld
        exampleTransformers examplePatch,
     THEN conjunct2, THEN conjunct2, THEN conjunct2, THEN conjunct2, THEN conjunct2,
     THEN conjunct2, THEN conjunct1, rule_format, OF key_missing [OF same(1)],
     THEN conjunct1, rule_format, OF answers(1)]
  have write_rejected: "fst (createAsset rejectingPlatform exampleConfig ''videos/missing.mp4''
      None emptyWorld) = Inl FetchRejected" .
  from stat_failure_swallowed
    [of refusingPlatform "''videos/missing.mp4''" exampleConfig None emptyWorld
        exampleTransformers examplePatch,
     THEN conjunct2, THEN conjunct2, THEN conjunct2, THEN conjunct2, THEN conjunct2,
     THEN conjunct2, THEN conjunct1, rule_format, OF key_missing [OF same(2)],
     THEN conjunct2, rule_format, OF answers(2)]
  have write_refused: "fst (createAsset refusingPlatform exampleConfig ''videos/missing.mp4''
      None emptyWorld) = Inl (SaveFailed 500)" .
  have hit: "getAsset P exampleConfig ''videos/a.mp4'' cachedWorld = (Inr staleRecord, cachedWorld)"
    if "isRemote P = isRemote examplePlatform" for P
    by (simp add: getAsset_resolved [OF key_a [OF that]] loadAsset_hit cachedWorld_def)
  from stat_failure_swallowed
    [of rejectingPlatform "''videos/a.mp4''" exampleConfig None cachedWorld exampleTransformers
        examplePatch,
     THEN conjunct2, THEN conjunct2, THEN conjunct2, THEN conjunct2, THEN conjunct2,
     THEN conjunct2, THEN conjunct2, THEN conjunct1, rule_format,
     OF conjI [OF key_a [OF same(1)] hit [OF same(1)]],
     THEN conjunct1, rule_format, OF answers(1)]
  have update_rejected: "fst (updateAsset rejectingPlatform exampleConfig exampleTransformers
      ''videos/a.mp4'' examplePatch cachedWorld) = Inl FetchRejected" .
  from stat_failure_swallowed
    [of refusingPlatform "''videos/a.mp4''" exampleConfig None cachedWorld exampleTransformers
        examplePatch,
     THEN conjunct2, THEN conjunct2, THEN conjunct2, THEN conjunct2, THEN conjunct2,
     THEN conjunct2, THEN conjunct2, THEN conjunct1, rule_format,
     OF conjI [OF key_a [OF same(2)] hit [OF same(2)]],
     THEN conjunct2, rule_format, OF answers(2)]
  have update_refused: "fst (updateAsset refusingPlatform exampleConfig exampleTransformers
      ''videos/a.mp4'' examplePatch cachedWorld) = Inl (SaveFailed 500)" .
  from local remote created size untouched unresolved invalid malformed read_rejected
    read_missing read_garbled write_rejected write_refused update_rejected update_refused
  show ?thesis by simp
qed

section \<open>The merge of an update\<close>

lemma mergeObj_Cons:
  "mergeObj cur ((k, v) # rest) = mergeObj (AList.update k (mergeValue (map_of cur k) v) cur) rest"
  by (cases v) (simp_all add: mergeValue_def split: option.split json.split)

lemma map_of_mergeObj_notin:
  "k \<notin> fst ` set p \<Longrightarrow> map_of (mergeObj cur p) k = map_of cur k"
proof (induction p arbitrary: cur)
  case Nil
  show ?case by simp
next
  case (Cons entry p)
  obtain k' v where entry: "entry = (k', v)" by (cases entry)
  from Cons.prems entry have "k \<noteq> k'" and "k \<notin> fst ` set p" by auto
  then show ?case
    by (simp add: entry mergeObj_Cons Cons.IH update_conv')
qed

lemma map_of_mergeObj:
  "distinct (map fst p) \<Longrightarrow>
   map_of (mergeObj cur p) k =
     (case map_of p k of
        None \<Rightarrow> map_of cur k
      | Some v \<Rightarrow> Some (mergeValue (map_of cur k) v))"
proof (induction p arbitrary: cur)
  case Nil
  show ?case by simp
next
  case (Cons entry p)
  obtain k' v where entry: "entry = (k', v)" by (cases entry)
  from Cons.prems entry have notin: "k' \<notin> fst ` set p" and dist: "distinct (map fst p)"
    by auto
  show ?case
  proof (cases "k = k'")
    case True
    with notin have "map_of (mergeObj (AList.update k' (mergeValue (map_of cur k') v) cur) p) k
        = map_of (AList.update k' (mergeValue (map_of cur k') v) cur) k"
      by (simp add: map_of_mergeObj_notin)
    with True show ?thesis
      by (simp add: entry mergeObj_Cons update_conv')
  next
    case False
    then have "map_of (AList.update k' (mergeValue (map_of cur k') v) cur) k = map_of cur k"
      by (simp add: update_conv')
    with False show ?thesis
      by (simp add: entry mergeObj_Cons Cons.IH [OF dist] split: option.split)
  qed
qed

lemma mergedAsset_unfold:
  "mergedAsset cur patch now = AList.update ''updatedAt'' (JNum now) (mergeObj cur patch)"
  by (simp add: mergedAsset_def deepMerge_def)

lemma map_of_mergedAsset:
  "map_of (mergedAsset cur patch now) k =
     (if k = ''updatedAt'' then Some (JNum now) else map_of (mergeObj cur patch) k)"
  by (simp add: mergedAsset_unfold update_conv')

text \<open>
  C4. Whatever the patch holds, also under \<^verbatim>\<open>updatedAt\<close>, the merged record's
  \<^verbatim>\<open>updatedAt\<close> is the clock reading taken for the merge; a successful update returns
  that merged record, passed through the transform dispatcher.
\<close>

theorem updatedAt_is_merge_time:
  "map_of (mergedAsset current patch now) ''updatedAt'' = Some (JNum now)
   \<and> (\<forall>r w'. updateAsset P cfg ts filePath patch w = (Inr r, w') \<longrightarrow>
         (\<exists>cur w1. getAsset P cfg filePath w = (Inr cur, w1)
            \<and> r = transformAsset P ts (mergedAsset cur patch (dateNow P (clockReads w1)))
            \<and> map_of (mergedAsset cur patch (dateNow P (clockReads w1))) ''updatedAt''
                = Some (JNum (dateNow P (clockReads w1)))))"
proof -
  have "\<exists>cur w1. getAsset P cfg filePath w = (Inr cur, w1)
            \<and> r = transformAsset P ts (mergedAsset cur patch (dateNow P (clockReads w1)))
            \<and> map_of (mergedAsset cur patch (dateNow P (clockReads w1))) ''updatedAt''
                = Some (JNum (dateNow P (clockReads w1)))"
    if "updateAsset P cfg ts filePath patch w = (Inr r, w')" for r w'
    using updateAsset_result [OF that] by (auto simp: map_of_mergedAsset)
  then show ?thesis
    by (simp add: map_of_mergedAsset)
qed

lemma transformAsset_applied:
  "transformAsset P ts asset = asset \<or>
   (\<exists>prov transformer. map_of asset ''provider'' = Some prov \<and> truthy prov
      \<and> map_of ts (camelCase P prov) = Some transformer
      \<and> transformAsset P ts asset = transformer asset)"
proof (cases "map_of asset ''provider''")
  case None
  then show ?thesis by (simp add: transformAsset_def)
next
  case (Some prov)
  then show ?thesis
    by (cases "map_of ts (camelCase P prov)")
       (simp_all add: transformAsset_def transformLoop_map_of)
qed

text \<open>
  C3, amended. When the patch has no \<^verbatim>\<open>createdAt\<close> entry and the transform the dispatcher
  applies to the merged record, if it applies one, leaves the \<^verbatim>\<open>createdAt\<close> of that record
  as it finds it, the record a successful update returns and sends to the store has the
  \<^verbatim>\<open>createdAt\<close> of the current record. Nothing is asked of the other registered transforms.
\<close>

theorem createdAt_kept_by_update:
  assumes "updateAsset P cfg ts filePath patch w = (Inr r, w')"
    and "getAsset P cfg filePath w = (Inr cur, w1)"
    and "''createdAt'' \<notin> fst ` set patch"
    and "\<forall>prov transformer.
           map_of (mergedAsset cur patch (dateNow P (clockReads w1))) ''provider'' = Some prov
           \<and> truthy prov \<and> map_of ts (camelCase P prov) = Some transformer \<longrightarrow>
           map_of (transformer (mergedAsset cur patch (dateNow P (clockReads w1)))) ''createdAt''
             = map_of (mergedAsset cur patch (dateNow P (clockReads w1))) ''createdAt''"
  shows "map_of r ''createdAt'' = map_of cur ''createdAt''
       \<and> (\<exists>key. getAssetConfigPath P cfg filePath = Inr key
              \<and> netLog w' = netLog w1 @ [POST (apiBaseUrl cfg) key r])"
proof -
  let ?merged = "mergedAsset cur patch (dateNow P (clockReads w1))"
  from updateAsset_result [OF assms(1)] assms(2) obtain key where
    key: "getAssetConfigPath P cfg filePath = Inr key"
    and r: "r = transformAsset P ts ?merged"
    and log: "netLog w' = netLog w1 @ [POST (apiBaseUrl cfg) key r]"
    by auto
  from assms(3) have merged: "map_of ?merged ''createdAt'' = map_of cur ''createdAt''"
    by (simp add: map_of_mergedAsset map_of_mergeObj_notin)
  from transformAsset_applied [of P ts ?merged] assms(4)
  have "map_of (transformAsset P ts ?merged) ''createdAt'' = map_of ?merged ''createdAt''"
    by auto
  with merged r have "map_of r ''createdAt'' = map_of cur ''createdAt''" by simp
  with key log show ?thesis by blast
qed

text \<open>
  C5. Under a key of the patch the merged record holds: the merge, by the same rule, of the
  two values when both the record's and the patch's are objects; the patch's value otherwise
  (a scalar or an array, or an object where the record has none). Under any other key it
  holds what the record held. The merged record of an update is this merge with
  \<^verbatim>\<open>updatedAt\<close> set; and a record whose \<^verbatim>\<open>a\<close> is \<^verbatim>\<open>{x: 0, y: 2}\<close>, patched with
  \<^verbatim>\<open>{a: {x: 1}}\<close>, gets \<^verbatim>\<open>{x: 1, y: 2}\<close> for \<^verbatim>\<open>a\<close>.
\<close>

theorem merge_semantics:
  assumes "distinct (map fst patch)"
  shows "map_of (mergeObj cur patch) k =
           (case map_of patch k of
              None \<Rightarrow> map_of cur k
            | Some v \<Rightarrow> Some (mergeValue (map_of cur k) v))
       \<and> (\<forall>e q. mergeValue (Some (JObj e)) (JObj q) = JObj (mergeObj e q))
       \<and> (\<forall>old v. (\<forall>q. v \<noteq> JObj q) \<longrightarrow> mergeValue old v = v)
       \<and> (\<forall>old v. (\<forall>e. old \<noteq> Some (JObj e)) \<longrightarrow> mergeValue old v = v)
       \<and> (k \<noteq> ''updatedAt'' \<longrightarrow>
            map_of (mergedAsset cur patch now) k = map_of (mergeObj cur patch) k)
       \<and> mergedAsset [(''a'', JObj [(''x'', JNum 0), (''y'', JNum 2)])]
            [(''a'', JObj [(''x'', JNum 1)])] now
           = [(''a'', JObj [(''x'', JNum 1), (''y'', JNum 2)]), (''updatedAt'', JNum now)]"
proof -
  have scalar: "mergeValue old v = v" if "\<forall>q. v \<noteq> JObj q" for old v
    using that by (cases v) (simp_all add: mergeValue_def split: option.split json.split)
  have fresh: "mergeValue old v = v" if "\<forall>e. old \<noteq> Some (JObj e)" for old v
    using that by (cases v) (auto simp: mergeValue_def split: option.split json.split)
  have example: "mergedAsset [(''a'', JObj [(''x'', JNum 0), (''y'', JNum 2)])]
            [(''a'', JObj [(''x'', JNum 1)])] now
           = [(''a'', JObj [(''x'', JNum 1), (''y'', JNum 2)]), (''updatedAt'', JNum now)]"
    by (simp add: mergedAsset_def deepMerge_def)
  from map_of_mergeObj [OF assms, of cur k] scalar fresh example show ?thesis
    by (simp add: map_of_mergedAsset mergeValue_def)
qed

lemma example_hit:
  "getAsset examplePlatform exampleConfig ''videos/a.mp4'' cachedWorld
     = (Inr staleRecord, cachedWorld)"
  by (simp add: getAsset_resolved [OF example_key_a] loadAsset_hit cachedWorld_def)

text \<open>
  C3, as the claim states it, fails: a patch that names \<^verbatim>\<open>createdAt\<close> replaces it, and so
  does a transform that sets it.
\<close>

theorem createdAt_changed_by_patch:
  "getAsset examplePlatform exampleConfig ''videos/a.mp4'' cachedWorld
     = (Inr staleRecord, cachedWorld)
   \<and> map_of staleRecord ''createdAt'' = Some (JNum 1)
   \<and> fst (updateAsset examplePlatform exampleConfig exampleTransformers ''videos/a.mp4''
            redatingPatch cachedWorld) = Inr redatedRecord
   \<and> map_of redatedRecord ''createdAt'' = Some (JNum 5)
   \<and> fst (updateAsset examplePlatform exampleConfig resettingTransformers ''videos/a.mp4''
            [] cachedWorld) = Inr resetRecord
   \<and> map_of resetRecord ''createdAt'' = Some (JNum 0)"
  by (simp add: model_defs example_defs)

lemma example_update_mixed:
  "updateAsset examplePlatform exampleConfig mixedTransformers ''videos/a.mp4''
      examplePatch cachedWorld = (Inr updatedRecord, updatedWorld)"
  by (simp add: model_defs example_defs)

theorem createdAt_kept_by_update_witness:
  "updateAsset examplePlatform exampleConfig mixedTransformers ''videos/a.mp4''
      examplePatch cachedWorld = (Inr updatedRecord, updatedWorld)
   \<and> getAsset examplePlatform exampleConfig ''videos/a.mp4'' cachedWorld
       = (Inr staleRecord, cachedWorld)
   \<and> ''createdAt'' \<notin> fst ` set examplePatch
   \<and> map_of mixedTransformers ''other'' = Some (AList.update ''createdAt'' (JNum 0))
   \<and> map_of updatedRecord ''createdAt'' = map_of staleRecord ''createdAt''
   \<and> map_of staleRecord ''createdAt'' = Some (JNum 1)
   \<and> netLog updatedWorld = [POST ''https://api.test'' ''videos/a.mp4.json'' updatedRecord]"
proof -
  have patch: "''createdAt'' \<notin> fst ` set examplePatch"
    by (simp add: examplePatch_def)
  have applied: "\<forall>prov transformer.
      map_of (mergedAsset staleRecord examplePatch (dateNow examplePlatform (clockReads cachedWorld)))
        ''provider'' = Some prov
      \<and> truthy prov \<and> map_of mixedTransformers (camelCase examplePlatform prov) = Some transformer \<longrightarrow>
      map_of (transformer (mergedAsset staleRecord examplePatch
                (dateNow examplePlatform (clockReads cachedWorld)))) ''createdAt''
        = map_of (mergedAsset staleRecord examplePatch
                (dateNow examplePlatform (clockReads cachedWorld))) ''createdAt''"
    by (auto simp: model_defs example_defs update_conv')
  from createdAt_kept_by_update [OF example_update_mixed example_hit patch applied]
  have "map_of updatedRecord ''createdAt'' = map_of staleRecord ''createdAt''"
    by simp
  moreover have "map_of staleRecord ''createdAt'' = Some (JNum 1)"
    "map_of mixedTransformers ''other'' = Some (AList.update ''createdAt'' (JNum 0))"
    by (simp_all add: staleRecord_def mixedTransformers_def exampleTransformers_def)
  moreover have "netLog updatedWorld = [POST ''https://api.test'' ''videos/a.mp4.json'' updatedRecord]"
    by (simp add: updatedWorld_def cachedWorld_def emptyWorld_def)
  ultimately show ?thesis
    using example_update_mixed patch example_hit by simp
qed

lemma example_redating:
  "updateAsset examplePlatform exampleConfig exampleTransformers ''videos/a.mp4''
      redatingPatch cachedWorld
   = (Inr redatedRecord,
      cachedWorld\<lparr>netLog := [POST ''https://api.test'' ''videos/a.mp4.json'' redatedRecord],
        clockReads := 1\<rparr>)"
  by (simp add: model_defs example_defs)

theorem updatedAt_is_merge_time_witness:
  "map_of redatingPatch ''updatedAt'' = Some (JNum 7)
   \<and> dateNow examplePlatform (clockReads cachedWorld) = 1000
   \<and> map_of (mergedAsset staleRecord redatingPatch 1000) ''updatedAt'' = Some (JNum 1000)
   \<and> fst (updateAsset examplePlatform exampleConfig exampleTransformers ''videos/a.mp4''
            redatingPatch cachedWorld) = Inr redatedRecord
   \<and> redatedRecord
       = transformAsset examplePlatform exampleTransformers
           (mergedAsset staleRecord redatingPatch 1000)
   \<and> map_of redatedRecord ''updatedAt'' = Some (JNum 1000)"
proof -
  note merged = updatedAt_is_merge_time
    [of staleRecord redatingPatch 1000 examplePlatform exampleConfig exampleTransformers
        "''videos/a.mp4''" cachedWorld]
  have clock: "dateNow examplePlatform (clockReads cachedWorld) = 1000"
    by (simp add: example_defs)
  from merged [THEN conjunct2, rule_format, OF example_redating] example_hit clock
  have "redatedRecord
       = transformAsset examplePlatform exampleTransformers
           (mergedAsset staleRecord redatingPatch 1000)"
    by auto
  moreover have "map_of redatingPatch ''updatedAt'' = Some (JNum 7)"
    "map_of redatedRecord ''updatedAt'' = Some (JNum 1000)"
    by (simp_all add: redatingPatch_def redatedRecord_def)
  ultimately show ?thesis
    using merged [THEN conjunct1] example_redating clock by simp
qed

lemma example_nested:
  "updateAsset examplePlatform exampleConfig [] ''videos/a.mp4'' nestedPatch nestedWorld
   = (Inr nestedMerged,
      nestedWorld\<lparr>netLog := [POST ''https://api.test'' ''videos/a.mp4.json'' nestedMerged],
        clockReads := 1\<rparr>)"
  by (simp add: model_defs example_defs)

theorem merge_semantics_witness:
  "distinct (map fst nestedPatch)
   \<and> map_of nestedRecord ''a'' = Some (JObj [(''x'', JNum 0), (''y'', JNum 2)])
   \<and> map_of nestedPatch ''a'' = Some (JObj [(''x'', JNum 1)])
   \<and> map_of (mergeObj nestedRecord nestedPatch) ''a''
       = Some (JObj [(''x'', JNum 1), (''y'', JNum 2)])
   \<and> map_of (mergeObj nestedRecord nestedPatch) ''sources'' = Some (JArr [JStr ''three''])
   \<and> map_of (mergeObj nestedRecord nestedPatch) ''status'' = Some (JStr ''ready'')
   \<and> fst (updateAsset examplePlatform exampleConfig [] ''videos/a.mp4'' nestedPatch nestedWorld)
       = Inr nestedMerged
   \<and> map_of nestedMerged ''a'' = Some (JObj [(''x'', JNum 1), (''y'', JNum 2)])"
proof -
  have dist: "distinct (map fst nestedPatch)"
    by (simp add: nestedPatch_def)
  have given: "map_of nestedRecord ''a'' = Some (JObj [(''x'', JNum 0), (''y'', JNum 2)])"
    "map_of nestedPatch ''a'' = Some (JObj [(''x'', JNum 1)])"
    "map_of nestedPatch ''sources'' = Some (JArr [JStr ''three''])"
    "map_of nestedPatch ''status'' = None"
    "map_of nestedRecord ''status'' = Some (JStr ''ready'')"
    by (simp_all add: nestedRecord_def nestedPatch_def)
  have inner: "mergeObj [(''x'', JNum 0), (''y'', JNum 2)] [(''x'', JNum 1)]
      = [(''x'', JNum 1), (''y'', JNum 2)]"
    by simp
  from merge_semantics [OF dist, of nestedRecord "''a''"] given inner
  have a: "map_of (mergeObj nestedRecord nestedPatch) ''a''
       = Some (JObj [(''x'', JNum 1), (''y'', JNum 2)])"
    by simp
  from merge_semantics [OF dist, of nestedRecord "''sources''"] given
  have b: "map_of (mergeObj nestedRecord nestedPatch) ''sources'' = Some (JArr [JStr ''three''])"
    by simp
  from merge_semantics [OF dist, of nestedRecord "''status''"] given
  have c: "map_of (mergeObj nestedRecord nestedPatch) ''status'' = Some (JStr ''ready'')"
    by simp
  have d: "map_of nestedMerged ''a'' = Some (JObj [(''x'', JNum 1), (''y'', JNum 2)])"
    by (simp add: nestedMerged_def)
  from dist given a b c d example_nested show ?thesis by simp
qed

end
